theory Spec2Isabelle
  imports Complex_Main
begin

section \<open>JavaScript numbers\<close>

text \<open>
  A JavaScript number is a double. A finite double is embedded as the real it denotes,
  and \<open>+\<close>, \<open>-\<close> and \<open>/\<close> give the exact result rounded to the nearest double, ties to
  the even significand, as ECMAScript prescribes. \<open>fl\<close> is that rounding: the exact
  value is scaled by the unit in the last place of its binade (52 fraction bits, the
  subnormal unit \<open>2 powi - 1074\<close> at the bottom), rounded to an integer, and scaled
  back. NaN, the infinities and results beyond the largest double are not embedded.
  A decimal literal of the hand and posture code denotes the double nearest to it,
  \<open>fl 0.2\<close> for \<open>0.2\<close>. Comparisons, \<open>Math.min\<close> and \<open>Math.abs\<close> are exact.
\<close>

definition roundTiesToEven :: "real \<Rightarrow> int" where
  "roundTiesToEven v =
     (let n = \<lfloor>v\<rfloor>; r = v - of_int n
      in if r < 1 / 2 then n else if 1 / 2 < r then n + 1 else if even n then n else n + 1)"

definition ulpExponent :: "real \<Rightarrow> int" where
  "ulpExponent v = max (\<lfloor>log 2 \<bar>v\<bar>\<rfloor> - 52) (- 1074)"

definition fl :: "real \<Rightarrow> real" where
  "fl v = (if v = 0 then 0
           else of_int (roundTiesToEven (v / 2 powi ulpExponent v)) * 2 powi ulpExponent v)"

text \<open>
  The operations read their operands through \<open>fl\<close>: a double is unchanged by it, and
  an operand written in decimal notation stands for the double nearest to it.
\<close>

definition jsAdd :: "real \<Rightarrow> real \<Rightarrow> real" where
  "jsAdd a b = fl (fl a + fl b)"

definition jsSub :: "real \<Rightarrow> real \<Rightarrow> real" where
  "jsSub a b = fl (fl a - fl b)"

definition jsDiv :: "real \<Rightarrow> real \<Rightarrow> real" where
  "jsDiv a b = fl (fl a / fl b)"

text \<open>
  \<open>Math.pow\<close> and \<open>Math.sqrt\<close> belong to the platform, and ECMAScript leaves their
  results implementation-approximated. The functions that call them take them as the
  parameter \<open>math\<close>.
\<close>

record math_lib =
  mathPow :: "real \<Rightarrow> real \<Rightarrow> real"
  mathSqrt :: "real \<Rightarrow> real"

text \<open>
  A platform whose \<open>Math.sqrt\<close> and whose \<open>Math.pow\<close> at a whole exponent return the
  correctly rounded result; it is the platform of the evaluations below.
\<close>

definition correctlyRounded :: math_lib where
  "correctlyRounded =
     \<lparr>mathPow = (\<lambda>base exponent. fl (base ^ nat \<lfloor>exponent\<rfloor>)),
      mathSqrt = (\<lambda>v. fl (sqrt v))\<rparr>"

section \<open>Data of the camera scanner\<close>

text \<open>
  The scanner component (CameraScanner) keeps two pieces of React state, \<open>features\<close> and
  \<open>liveStats\<close>, and a flag \<open>isScanning\<close>; the record \<open>scanner\<close> holds their values in
  one render. The perception callbacks update the state through functional updaters
  and so act on the current values. \<open>startScan\<close>, \<open>completeScan\<close> and \<open>stopScan\<close> are
  functions of one render: they read the values that render was given, also when a
  timer calls them after later renders.
\<close>

datatype error = TypeError

text \<open>A MediaPipe landmark \<open>{x, y, z}\<close> in normalized frame coordinates.\<close>

record landmark =
  lx :: real
  ly :: real
  lz :: real

text \<open>One detected hand: its landmarks, the wrist at index 0.\<close>

type_synonym hand = "landmark list"

text \<open>An entry \<open>{x, y, z, time}\<close> of \<open>handMovementHistory\<close>.\<close>

record position =
  px :: real
  py :: real
  pz :: real
  ptime :: int

datatype gaze = Normal | Inconsistent

datatype posture_kind = Seated | Standing

text \<open>The \<open>features\<close> state; \<open>None\<close> is JavaScript's \<open>null\<close>.\<close>

record feature_state =
  handSignFreq :: real
  speechDetected :: bool
  gazePattern :: "gaze option"
  posture :: "posture_kind option"
  interactionBehavior :: "string option"
  handMovementHistory :: "position list"
  speechHistory :: "string list"

text \<open>The \<open>liveStats\<close> state (its \<open>speechDetected\<close> field is \<open>statsSpeechDetected\<close> here).\<close>

record live_stats =
  handsDetected :: nat
  gesturesCount :: nat
  statsSpeechDetected :: bool
  faceDetected :: bool
  poseDetected :: bool

record scanner =
  isScanning :: bool
  features :: feature_state
  liveStats :: live_stats

definition initial_features :: feature_state where
  "initial_features =
     \<lparr>handSignFreq = 0, speechDetected = False, gazePattern = None, posture = None,
      interactionBehavior = None, handMovementHistory = [], speechHistory = []\<rparr>"

definition initial_liveStats :: live_stats where
  "initial_liveStats =
     \<lparr>handsDetected = 0, gesturesCount = 0, statsSpeechDetected = False,
      faceDetected = False, poseDetected = False\<rparr>"

text \<open>The state of a freshly mounted scanner.\<close>

definition initial_scanner :: scanner where
  "initial_scanner =
     \<lparr>isScanning = False, features = initial_features, liveStats = initial_liveStats\<rparr>"

text \<open>\<open>xs.slice(-n)\<close>: the last \<open>n\<close> elements, all of \<open>xs\<close> when it is shorter.\<close>

definition slice_last :: "nat \<Rightarrow> 'a list \<Rightarrow> 'a list" where
  "slice_last n xs = drop (length xs - n) xs"

text \<open>\<open>arr[i]\<close>: \<open>undefined\<close> (here \<open>None\<close>) beyond the end of the array.\<close>

definition landmark_at :: "'a list \<Rightarrow> nat \<Rightarrow> 'a option" where
  "landmark_at landmarks i = (if i < length landmarks then Some (landmarks ! i) else None)"

section \<open>Hand gestures\<close>

text \<open>
  The callback of \<open>landmarks.map\<close> in \<open>analyzeHandGestures\<close>: it reads \<open>hand[0]\<close> and its
  coordinates, which throws a TypeError on a hand without landmarks.
\<close>

definition wristPosition :: "int \<Rightarrow> hand \<Rightarrow> error + position" where
  "wristPosition currentTime hand =
     (case landmark_at hand 0 of
        None \<Rightarrow> Inl TypeError
      | Some wrist \<Rightarrow>
          Inr \<lparr>px = lx wrist, py = ly wrist, pz = lz wrist, ptime = currentTime\<rparr>)"

fun handPositions :: "int \<Rightarrow> hand list \<Rightarrow> error + position list" where
  "handPositions currentTime [] = Inr []"
| "handPositions currentTime (hand # hands) =
     (case wristPosition currentTime hand of
        Inl e \<Rightarrow> Inl e
      | Inr p \<Rightarrow>
          (case handPositions currentTime hands of
             Inl e \<Rightarrow> Inl e
           | Inr ps \<Rightarrow> Inr (p # ps)))"

text \<open>\<open>Math.sqrt(Math.pow(dx, 2) + Math.pow(dy, 2))\<close>: the depth \<open>z\<close> is not used.\<close>

definition distance :: "math_lib \<Rightarrow> position \<Rightarrow> position \<Rightarrow> real" where
  "distance math lastPos prevPos =
     mathSqrt math
       (jsAdd (mathPow math (jsSub (px lastPos) (px prevPos)) 2)
              (mathPow math (jsSub (py lastPos) (py prevPos)) 2))"

text \<open>The updater handed to \<open>setFeatures\<close> in \<open>analyzeHandGestures\<close>.\<close>

definition updateHandFeatures :: "math_lib \<Rightarrow> position list \<Rightarrow> feature_state \<Rightarrow> feature_state" where
  "updateHandFeatures math positions prev =
     (let history = handMovementHistory prev @ positions;
          recentHistory = slice_last 10 history;
          movementFreq =
            (if length recentHistory \<ge> 2 then
               (let lastPos = recentHistory ! (length recentHistory - 1);
                    prevPos = recentHistory ! (length recentHistory - 2)
                in if distance math lastPos prevPos > fl 0.01
                   then jsAdd (handSignFreq prev) (fl 0.2)
                   else handSignFreq prev)
             else handSignFreq prev)
      in prev\<lparr>handSignFreq := min movementFreq 10, handMovementHistory := recentHistory\<rparr>)"

definition analyzeHandGestures :: "math_lib \<Rightarrow> int \<Rightarrow> hand list \<Rightarrow> scanner \<Rightarrow> error + scanner" where
  "analyzeHandGestures math currentTime landmarks s =
     (if length landmarks > 0 then
        (case handPositions currentTime landmarks of
           Inl e \<Rightarrow> Inl e
         | Inr positions \<Rightarrow>
             Inr (s\<lparr>features := updateHandFeatures math positions (features s),
                    liveStats := (liveStats s)\<lparr>gesturesCount := gesturesCount (liveStats s) + 1\<rparr>\<rparr>))
      else Inr s)"

text \<open>
  \<open>hands.onResults\<close>. The canvas and the video element are rendered by the component
  whenever it is mounted, so of the guard \<open>canvasRef.current && videoRef.current &&
  isScanning\<close> the flag is the part that varies. \<open>results.multiHandLandmarks\<close> is
  \<open>None\<close> when the property is undefined; an empty array is truthy.
\<close>

definition handsOnResults :: "math_lib \<Rightarrow> int \<Rightarrow> hand list option \<Rightarrow> scanner \<Rightarrow> error + scanner" where
  "handsOnResults math currentTime multiHandLandmarks s =
     (if isScanning s then
        (case multiHandLandmarks of
           None \<Rightarrow> Inr s
         | Some landmarks \<Rightarrow>
             (case analyzeHandGestures math currentTime landmarks s of
                Inl e \<Rightarrow> Inl e
              | Inr s' \<Rightarrow>
                  Inr (s'\<lparr>liveStats := (liveStats s')\<lparr>handsDetected := length landmarks\<rparr>\<rparr>)))
      else Inr s)"

section \<open>Pose: posture and gaze\<close>

definition classifyPosture :: "landmark \<Rightarrow> landmark \<Rightarrow> landmark \<Rightarrow> landmark \<Rightarrow> posture_kind" where
  "classifyPosture leftHip rightHip leftAnkle rightAnkle =
     (let hipY = jsDiv (jsAdd (ly leftHip) (ly rightHip)) 2;
          ankleY = jsDiv (jsAdd (ly leftAnkle) (ly rightAnkle)) 2;
          hipAnkleDiff = \<bar>jsSub hipY ankleY\<bar>
      in if hipAnkleDiff < fl 0.2 then Seated else Standing)"

definition analyzePose :: "landmark list \<Rightarrow> feature_state \<Rightarrow> feature_state" where
  "analyzePose landmarks prev =
     (case (landmark_at landmarks 23, landmark_at landmarks 24,
            landmark_at landmarks 27, landmark_at landmarks 28) of
        (Some leftHip, Some rightHip, Some leftAnkle, Some rightAnkle) \<Rightarrow>
          prev\<lparr>posture := Some (classifyPosture leftHip rightHip leftAnkle rightAnkle)\<rparr>
      | _ \<Rightarrow> prev)"

text \<open>
  The gaze test only compares the coordinate with the two literals; it is written with
  the decimals of the source.
\<close>

definition classifyGaze :: "landmark \<Rightarrow> gaze" where
  "classifyGaze nose = (if lx nose < 0.3 \<or> lx nose > 0.7 then Inconsistent else Normal)"

text \<open>\<open>pose.onResults\<close>, under the same guard as \<open>hands.onResults\<close>.\<close>

definition poseOnResults :: "landmark list option \<Rightarrow> scanner \<Rightarrow> scanner" where
  "poseOnResults poseLandmarks s =
     (if isScanning s then
        (case poseLandmarks of
           None \<Rightarrow> s
         | Some landmarks \<Rightarrow>
             (let s1 = s\<lparr>features := analyzePose landmarks (features s)\<rparr>
              in if length landmarks > 0 then
                   (case landmark_at landmarks 0 of
                      None \<Rightarrow> s1
                    | Some nose \<Rightarrow>
                        s1\<lparr>features := (features s1)\<lparr>gazePattern := Some (classifyGaze nose)\<rparr>,
                           liveStats := (liveStats s1)\<lparr>faceDetected := True, poseDetected := True\<rparr>\<rparr>)
                 else s1))
      else s)"

section \<open>Speech\<close>

text \<open>
  One entry of \<open>event.results\<close>: its \<open>isFinal\<close> flag and the transcript of its first
  alternative, \<open>event.results[i][0].transcript\<close>.
\<close>

record speech_result =
  isFinal :: bool
  transcript :: string

text \<open>
  The \<open>for\<close> loop of \<open>recognition.onresult\<close> over the results from \<open>event.resultIndex\<close>
  on; the boolean is the local variable \<open>speechDetected\<close>.
\<close>

fun onresultLoop :: "speech_result list \<Rightarrow> feature_state \<times> bool \<Rightarrow> feature_state \<times> bool" where
  "onresultLoop [] (f, detected) = (f, detected)"
| "onresultLoop (r # rs) (f, detected) =
     (if isFinal r then
        onresultLoop rs
          (f\<lparr>speechDetected := True,
             speechHistory := slice_last 5 (speechHistory f) @ [transcript r]\<rparr>, True)
      else onresultLoop rs (f, detected))"

text \<open>\<open>recognition.onresult\<close>; it is not guarded by \<open>isScanning\<close>.\<close>

definition recognitionOnResult :: "nat \<Rightarrow> speech_result list \<Rightarrow> scanner \<Rightarrow> scanner" where
  "recognitionOnResult resultIndex results s =
     (case onresultLoop (drop resultIndex results) (features s, False) of
        (f, detected) \<Rightarrow>
          (if detected then
             s\<lparr>features := f, liveStats := (liveStats s)\<lparr>statsSpeechDetected := True\<rparr>\<rparr>
           else s\<lparr>features := f\<rparr>))"

section \<open>Starting, completing and stopping a scan\<close>

text \<open>The object \<open>scanResults.features\<close> built by \<open>completeScan\<close>.\<close>

record scan_features =
  outHandSignFreq :: real
  outSpeechDetected :: bool
  outGazePattern :: gaze
  outPosture :: posture_kind
  outInteractionBehavior :: "string option"
  outTimestamp :: string

record scan_results =
  resultFeatures :: scan_features
  duration :: nat

definition scanDuration :: nat where
  "scanDuration = 20000"

text \<open>\<open>v || null\<close> on a string or \<open>null\<close>: the empty string is falsy.\<close>

definition orNull :: "string option \<Rightarrow> string option" where
  "orNull v = (case v of None \<Rightarrow> None | Some str \<Rightarrow> if str = [] then None else Some str)"

text \<open>\<open>scanResults.features\<close> as \<open>completeScan\<close> builds it from the values of its render.\<close>

definition buildScanFeatures :: "string \<Rightarrow> scanner \<Rightarrow> scan_features" where
  "buildScanFeatures now render =
     \<lparr>outHandSignFreq = min (handSignFreq (features render)) 10,
      outSpeechDetected = (speechDetected (features render) \<or> statsSpeechDetected (liveStats render)),
      outGazePattern = (case gazePattern (features render) of None \<Rightarrow> Normal | Some g \<Rightarrow> g),
      outPosture = (case posture (features render) of None \<Rightarrow> Standing | Some p \<Rightarrow> p),
      outInteractionBehavior = orNull (interactionBehavior (features render)),
      outTimestamp = now\<rparr>"

text \<open>
  The mounted component: the current React state, the pending timeouts of
  \<open>startGuidedSteps\<close> that will call \<open>completeScan\<close> (oldest first), each with the render
  whose \<open>completeScan\<close> it calls, and the running progress interval
  (\<open>progressIntervalRef\<close>) with the render it closes over.
\<close>

record component =
  current :: scanner
  pendingCompletes :: "scanner list"
  progressInterval :: "scanner option"

definition initial_component :: component where
  "initial_component =
     \<lparr>current = initial_scanner, pendingCompletes = [], progressInterval = None\<rparr>"

text \<open>
  \<open>startGuidedSteps\<close> of a render. Of its four step timers the last one
  (\<open>15000 + 5000 >= scanDuration\<close>) ends in a timeout that calls that render's
  \<open>completeScan\<close> 20 s after the start; the instructions the steps show are not
  embedded. It also starts the progress interval.
\<close>

definition startGuidedSteps :: "scanner \<Rightarrow> component \<Rightarrow> component" where
  "startGuidedSteps render c =
     c\<lparr>pendingCompletes := pendingCompletes c @ [render], progressInterval := Some render\<rparr>"

text \<open>
  \<open>startScan\<close>, run by the click on Start Scan, so of the current render. When
  \<open>getUserMedia\<close> grants the camera it sets \<open>isScanning\<close> and calls \<open>startGuidedSteps\<close>;
  when it throws, the error goes to \<open>onError\<close> and nothing changes. The features are
  not reset.
\<close>

definition startScan :: "bool \<Rightarrow> component \<Rightarrow> component" where
  "startScan cameraGranted c =
     (if cameraGranted
      then startGuidedSteps (current c) (c\<lparr>current := (current c)\<lparr>isScanning := True\<rparr>\<rparr>)
      else c)"

text \<open>
  \<open>completeScan\<close> of a render: it clears the progress interval, sets \<open>isScanning\<close> to
  false, and hands to \<open>onScanComplete\<close> (300 ms later, by a timeout nothing cancels) the
  scan results built from the \<open>features\<close> and \<open>liveStats\<close> of that render. Stopping the
  camera, the media tracks and the recognizer touches none of the state embedded here;
  \<open>now\<close> is \<open>new Date().toISOString()\<close>.
\<close>

definition completeScan :: "string \<Rightarrow> scanner \<Rightarrow> component \<Rightarrow> component \<times> scan_results" where
  "completeScan now render c =
     (c\<lparr>current := (current c)\<lparr>isScanning := False\<rparr>, progressInterval := None\<rparr>,
      \<lparr>resultFeatures = buildScanFeatures now render, duration = scanDuration\<rparr>)"

text \<open>
  \<open>stopScan\<close>: it sets \<open>isScanning\<close> to false and clears the progress interval. It
  clears no timeout and calls neither \<open>completeScan\<close> nor \<open>onScanComplete\<close>.
\<close>

definition stopScan :: "component \<Rightarrow> component" where
  "stopScan c = c\<lparr>current := (current c)\<lparr>isScanning := False\<rparr>, progressInterval := None\<rparr>"

text \<open>
  The callback of the progress interval when the progress reaches 100: it clears the
  interval and calls \<open>completeScan\<close> when its render was scanning.
\<close>

definition progressComplete :: "string \<Rightarrow> scanner \<Rightarrow> component \<Rightarrow> component \<times> scan_results option" where
  "progressComplete now render c =
     (if isScanning render
      then (case completeScan now render (c\<lparr>progressInterval := None\<rparr>) of
              (c', results) \<Rightarrow> (c', Some results))
      else (c\<lparr>progressInterval := None\<rparr>, None))"

section \<open>What happens to a mounted scanner\<close>

text \<open>
  The perception events the scanner receives: a hands result (with \<open>Date.now()\<close>), a
  pose result, a speech-recognition event (\<open>resultIndex\<close> and \<open>results\<close>).
\<close>

datatype event =
    HandsResults int "hand list option"
  | PoseResults "landmark list option"
  | SpeechResult nat "speech_result list"

text \<open>
  An exception thrown inside \<open>hands.onResults\<close> leaves the callback before any state
  update is queued, so the state is the one before the event.
\<close>

fun observeEvent :: "math_lib \<Rightarrow> event \<Rightarrow> scanner \<Rightarrow> scanner" where
  "observeEvent math (HandsResults currentTime multiHandLandmarks) s =
     (case handsOnResults math currentTime multiHandLandmarks s of Inl e \<Rightarrow> s | Inr s' \<Rightarrow> s')"
| "observeEvent math (PoseResults poseLandmarks) s = poseOnResults poseLandmarks s"
| "observeEvent math (SpeechResult resultIndex results) s = recognitionOnResult resultIndex results s"

text \<open>
  The user clicks Start Scan (the camera granted or not), a perception event arrives,
  the user clicks Stop Scan, the oldest pending timeout of \<open>startGuidedSteps\<close> fires,
  or the progress interval reaches 100. \<open>perform\<close> gives the component each leaves and
  what \<open>onScanComplete\<close> receives from it, \<open>None\<close> when it is not called. The Flip
  Camera button is not embedded.
\<close>

datatype action =
    Start bool
  | Perceive event
  | Stop
  | TimeoutFires string
  | IntervalEnds string

fun perform :: "math_lib \<Rightarrow> action \<Rightarrow> component \<Rightarrow> component \<times> scan_results option" where
  "perform math (Start cameraGranted) c = (startScan cameraGranted c, None)"
| "perform math (Perceive e) c = (c\<lparr>current := observeEvent math e (current c)\<rparr>, None)"
| "perform math Stop c = (stopScan c, None)"
| "perform math (TimeoutFires now) c =
     (case pendingCompletes c of
        [] \<Rightarrow> (c, None)
      | render # rest \<Rightarrow>
          (case completeScan now render (c\<lparr>pendingCompletes := rest\<rparr>) of
             (c', results) \<Rightarrow> (c', Some results)))"
| "perform math (IntervalEnds now) c =
     (case progressInterval c of
        None \<Rightarrow> (c, None)
      | Some render \<Rightarrow> progressComplete now render c)"

fun run :: "math_lib \<Rightarrow> action list \<Rightarrow> component \<Rightarrow> component" where
  "run math [] c = c"
| "run math (a # acts) c = run math acts (fst (perform math a c))"

text \<open>The scan results \<open>onScanComplete\<close> receives in the course of the actions, in order.\<close>

fun handedOver :: "math_lib \<Rightarrow> action list \<Rightarrow> component \<Rightarrow> scan_results list" where
  "handedOver math [] c = []"
| "handedOver math (a # acts) c =
     (case snd (perform math a c) of None \<Rightarrow> [] | Some results \<Rightarrow> [results])
       @ handedOver math acts (fst (perform math a c))"

text \<open>The renders whose values a later \<open>completeScan\<close> can read, and the current one.\<close>

definition renders :: "component \<Rightarrow> scanner set" where
  "renders c = insert (current c) (set (pendingCompletes c) \<union> set_option (progressInterval c))"

fun isHandsEvent :: "action \<Rightarrow> bool" where
  "isHandsEvent (Perceive (HandsResults currentTime multiHandLandmarks)) = True"
| "isHandsEvent a = False"

fun isPoseEvent :: "action \<Rightarrow> bool" where
  "isPoseEvent (Perceive (PoseResults poseLandmarks)) = True"
| "isPoseEvent a = False"

fun isSpeechEvent :: "action \<Rightarrow> bool" where
  "isSpeechEvent (Perceive (SpeechResult resultIndex results)) = True"
| "isSpeechEvent a = False"

text \<open>The neutral defaults of the feature vector.\<close>

definition neutralFeatures :: "string \<Rightarrow> scan_features" where
  "neutralFeatures now =
     \<lparr>outHandSignFreq = 0, outSpeechDetected = False, outGazePattern = Normal,
      outPosture = Standing, outInteractionBehavior = None, outTimestamp = now\<rparr>"

text \<open>The wrist sample \<open>{x, y, z, time}\<close> of a hand that has its landmarks.\<close>

definition wristSample :: "int \<Rightarrow> hand \<Rightarrow> position" where
  "wristSample currentTime hand =
     \<lparr>px = lx (hd hand), py = ly (hd hand), pz = lz (hd hand), ptime = currentTime\<rparr>"

section \<open>The recommendation card\<close>

datatype mode = Voice | Sign | Text | Gesture | Motor

text \<open>The recommendation the card receives from the server (the response of the scan).\<close>

record recommendation =
  recMode :: mode
  confidence :: real
  cues :: "string list"
  scores :: "(mode \<times> real) list"

text \<open>
  The card only compares the confidence with a literal and rounds percentages for
  display; it is written with the decimals of the source.
\<close>

text \<open>
  What the card renders from the recommendation: the percentage, whether the
  low-confidence warning is shown, the cues listed, the percentage of every entry of
  \<open>scores\<close>, and the \<open>disabled\<close> property of the button Accept Recommendation.
\<close>

record card =
  confidencePercent :: int
  lowConfidenceWarning :: bool
  shownCues :: "string list"
  shownScores :: "(mode \<times> int) list"
  acceptDisabled :: bool

definition isHighConfidence :: "recommendation \<Rightarrow> bool" where
  "isHighConfidence r = (confidence r > 0.7)"

text \<open>The component returns \<open>null\<close> (here \<open>None\<close>) when it has no recommendation.\<close>

definition RecommendationCard :: "recommendation option \<Rightarrow> card option" where
  "RecommendationCard rec =
     (case rec of
        None \<Rightarrow> None
      | Some r \<Rightarrow>
          Some \<lparr>confidencePercent = round (confidence r * 100),
                lowConfidenceWarning = (\<not> isHighConfidence r),
                shownCues = take 3 (cues r),
                shownScores = map (\<lambda>(modeName, score). (modeName, round (score * 100))) (scores r),
                acceptDisabled = (\<not> isHighConfidence r)\<rparr>)"

section \<open>The recommended mode\<close>

text \<open>
  Modelled from the spec: the Scoring Engine's choice of the recommended mode from a
  score map. The engine is server code that is not among the sources, which hold only
  its caller (\<open>submitAssistScan\<close>) and the card that shows its answer. The spec gives the
  mode as the arg-max of the five scores, ties resolved by the fixed priority order
  voice, sign, text, gesture, motor. The choice is written here as one pass over the
  modes in that order that replaces the current best only by a strictly higher score.
\<close>

definition priorityOrder :: "mode list" where
  "priorityOrder = [Voice, Sign, Text, Gesture, Motor]"

text \<open>
  Modelled from the spec: the pass of the absent Scoring Engine over the remaining modes,
  which keeps the current best unless a later mode scores strictly higher.
\<close>

fun argmaxFrom :: "(mode \<Rightarrow> real) \<Rightarrow> mode \<Rightarrow> mode list \<Rightarrow> mode" where
  "argmaxFrom sc best [] = best"
| "argmaxFrom sc best (m # ms) = argmaxFrom sc (if sc m > sc best then m else best) ms"

text \<open>
  Modelled from the spec: the \<open>mode\<close> of the Recommendation the absent Scoring Engine
  returns, the arg-max of the score map with ties going to the earlier mode.
\<close>

definition recommendedMode :: "(mode \<Rightarrow> real) \<Rightarrow> mode" where
  "recommendedMode sc = argmaxFrom sc (hd priorityOrder) (tl priorityOrder)"

text \<open>
  Modelled from the spec: the place of a mode in the priority order of the absent
  Scoring Engine, counted from 0.
\<close>

definition priorityRank :: "mode \<Rightarrow> nat" where
  "priorityRank m = length (takeWhile (\<lambda>m'. m' \<noteq> m) priorityOrder)"

section \<open>Auxiliary facts\<close>

lemma roundTiesToEven_error: "\<bar>of_int (roundTiesToEven v) - v\<bar> \<le> 1 / 2"
  unfolding roundTiesToEven_def Let_def by (auto; linarith)

lemma roundTiesToEven_nonneg: "0 \<le> v \<Longrightarrow> 0 \<le> roundTiesToEven v"
  unfolding roundTiesToEven_def Let_def by auto

lemma roundTiesToEven_of_int: "roundTiesToEven (of_int n) = n"
  unfolding roundTiesToEven_def Let_def by simp

lemma roundTiesToEven_bracket:
  "of_int n \<le> v \<Longrightarrow> n \<le> roundTiesToEven v"
  "v \<le> of_int n \<Longrightarrow> roundTiesToEven v \<le> n"
proof -
  show "n \<le> roundTiesToEven v" if "of_int n \<le> v"
  proof -
    from that have "n \<le> \<lfloor>v\<rfloor>" by (simp add: le_floor_iff)
    then show ?thesis
      unfolding roundTiesToEven_def Let_def by auto
  qed
  show "roundTiesToEven v \<le> n" if "v \<le> of_int n"
  proof (cases "v = of_int \<lfloor>v\<rfloor>")
    case True
    then have "roundTiesToEven v = \<lfloor>v\<rfloor>"
      by (metis roundTiesToEven_of_int)
    moreover from that have "\<lfloor>v\<rfloor> \<le> n" by linarith
    ultimately show ?thesis by simp
  next
    case False
    then have "of_int \<lfloor>v\<rfloor> < v" by (metis of_int_floor_le order_less_le)
    with that have "of_int \<lfloor>v\<rfloor> < (of_int n :: real)" by linarith
    then have "\<lfloor>v\<rfloor> < n" by simp
    then show ?thesis
      unfolding roundTiesToEven_def Let_def by auto
  qed
qed

lemma floor_log2_binade:
  assumes "2 powi k \<le> \<bar>v\<bar>" and "\<bar>v\<bar> < 2 powi (k + 1)"
  shows "\<lfloor>log 2 \<bar>v\<bar>\<rfloor> = k"
proof -
  have "(0::real) < 2 powi k" by simp
  with assms(1) have pos: "0 < \<bar>v\<bar>" by linarith
  have "(2::real) powr real_of_int k = 2 powi k"
    and "(2::real) powr (real_of_int k + 1) = 2 powi (k + 1)"
    using powr_real_of_int' [of 2 k] powr_real_of_int' [of 2 "k + 1"] by simp_all
  with assms pos show ?thesis
    by (simp add: floor_log_eq_powr_iff)
qed

lemma binade_of:
  assumes "v \<noteq> 0"
  shows "2 powi \<lfloor>log 2 \<bar>v\<bar>\<rfloor> \<le> \<bar>v\<bar>" and "\<bar>v\<bar> < 2 powi (\<lfloor>log 2 \<bar>v\<bar>\<rfloor> + 1)"
proof -
  define k where "k = \<lfloor>log 2 \<bar>v\<bar>\<rfloor>"
  have pos: "0 < \<bar>v\<bar>" using assms by simp
  have "(2::real) powr real_of_int k = 2 powi k"
    and "(2::real) powr (real_of_int k + 1) = 2 powi (k + 1)"
    using powr_real_of_int' [of 2 k] powr_real_of_int' [of 2 "k + 1"] by simp_all
  moreover have "2 powr real_of_int k \<le> \<bar>v\<bar> \<and> \<bar>v\<bar> < 2 powr (real_of_int k + 1)"
    using floor_log_eq_powr_iff [of "\<bar>v\<bar>" 2 k] pos k_def by simp
  ultimately show "2 powi \<lfloor>log 2 \<bar>v\<bar>\<rfloor> \<le> \<bar>v\<bar>" and "\<bar>v\<bar> < 2 powi (\<lfloor>log 2 \<bar>v\<bar>\<rfloor> + 1)"
    unfolding k_def by simp_all
qed

text \<open>A value with a significand of at most 53 bits and an exponent in range is a double.\<close>

lemma fl_exact:
  assumes w: "w = of_int m * 2 powi e" and m: "\<bar>m\<bar> < 2 ^ 53" and e: "- 1074 \<le> e"
  shows "fl w = w"
proof (cases "m = 0")
  case True
  with w show ?thesis by (simp add: fl_def)
next
  case False
  then have w0: "w \<noteq> 0" using w by simp
  define k where "k = \<lfloor>log 2 \<bar>w\<bar>\<rfloor>"
  define u where "u = ulpExponent w"
  have "\<bar>w\<bar> = of_int \<bar>m\<bar> * 2 powi e"
    using w by (simp add: abs_mult)
  also have "\<dots> < 2 ^ 53 * 2 powi e"
  proof -
    have "(of_int \<bar>m\<bar> :: real) < of_int (2 ^ 53)" using m by (simp only: of_int_less_iff)
    then show ?thesis by (intro mult_strict_right_mono) simp_all
  qed
  also have "\<dots> = 2 powi (53 + e)"
    by (simp add: power_int_add)
  finally have "\<bar>w\<bar> < 2 powi (53 + e)" .
  with binade_of(1) [OF w0] have "(2::real) powi k < 2 powi (53 + e)"
    unfolding k_def by linarith
  then have "k < 53 + e"
  proof (rule contrapos_pp)
    assume "\<not> k < 53 + e"
    then have "(2::real) powi (53 + e) \<le> 2 powi k"
      by (intro power_int_increasing) simp_all
    then show "\<not> (2::real) powi k < 2 powi (53 + e)" by simp
  qed
  with e have ue: "u \<le> e"
    unfolding u_def ulpExponent_def k_def by simp
  have "w / 2 powi u = of_int m * 2 powi (e - u)"
    using w by (simp add: power_int_diff)
  also have "\<dots> = of_int (m * 2 ^ nat (e - u))"
    using ue by (simp add: power_int_nonneg_exp)
  finally have "roundTiesToEven (w / 2 powi u) = m * 2 ^ nat (e - u)"
    by (simp only: roundTiesToEven_of_int)
  then have "fl w = of_int (m * 2 ^ nat (e - u)) * 2 powi u"
    using w0 by (simp add: fl_def u_def)
  also have "\<dots> = of_int m * (2 powi (e - u) * 2 powi u)"
    using ue by (simp add: power_int_nonneg_exp)
  also have "\<dots> = of_int m * 2 powi e"
    by (simp add: power_int_add [symmetric])
  finally show ?thesis using w by simp
qed

text \<open>The result of \<open>fl\<close> is a double: rounding it again changes nothing.\<close>

lemma fl_idempotent: "fl (fl v) = fl v"
proof (cases "v = 0")
  case True
  then show ?thesis by (simp add: fl_def)
next
  case False
  define k where "k = \<lfloor>log 2 \<bar>v\<bar>\<rfloor>"
  define u where "u = ulpExponent v"
  define n where "n = roundTiesToEven (v / 2 powi u)"
  have flv: "fl v = of_int n * 2 powi u"
    using False by (simp add: fl_def n_def u_def)
  have u1: "- 1074 \<le> u" and u2: "k - 52 \<le> u"
    unfolding u_def ulpExponent_def k_def by simp_all
  have "\<bar>v\<bar> < 2 powi (k + 1)"
    unfolding k_def using False by (rule binade_of(2))
  also have "(2::real) powi (k + 1) \<le> 2 powi (53 + u)"
    using u2 by (intro power_int_increasing) simp_all
  finally have "\<bar>v\<bar> < 2 powi (53 + u)" .
  then have "\<bar>v\<bar> / 2 powi u < 2 powi (53 + u) / 2 powi u"
    by (intro divide_strict_right_mono) simp_all
  then have "\<bar>v / 2 powi u\<bar> < 2 ^ 53"
    by (simp add: power_int_add)
  moreover define y where "y = v / 2 powi u"
  ultimately have "\<bar>y\<bar> < 2 ^ 53" by simp
  then have "y \<le> 2 ^ 53" and "- (2 ^ 53) \<le> y" by linarith+
  then have "y \<le> of_int (2 ^ 53)" and "of_int (- (2 ^ 53)) \<le> y" by simp_all
  then have "roundTiesToEven y \<le> 2 ^ 53" and "- (2 ^ 53) \<le> roundTiesToEven y"
    by (auto intro: roundTiesToEven_bracket)
  then have "n \<le> 2 ^ 53" and "- (2 ^ 53) \<le> n"
    unfolding n_def y_def by simp_all
  then consider "\<bar>n\<bar> < 2 ^ 53" | "n = 2 ^ 53" | "n = - (2 ^ 53)"
    by linarith
  then show ?thesis
  proof cases
    case 1
    then show ?thesis
      unfolding flv using u1 by (intro fl_exact [where m = n and e = u]) simp_all
  next
    case 2
    have "of_int n * 2 powi u = of_int (2 ^ 52) * (2::real) powi (u + 1)"
      unfolding 2 by (simp add: power_int_add)
    then show ?thesis
      unfolding flv using u1 by (intro fl_exact [where m = "2 ^ 52" and e = "u + 1"]) simp_all
  next
    case 3
    have "of_int n * 2 powi u = of_int (- (2 ^ 52)) * (2::real) powi (u + 1)"
      unfolding 3 by (simp add: power_int_add)
    then show ?thesis
      unfolding flv using u1 by (intro fl_exact [where m = "- (2 ^ 52)" and e = "u + 1"]) simp_all
  qed
qed

lemma fl_binade:
  assumes "2 powi k \<le> \<bar>v\<bar>" and "\<bar>v\<bar> < 2 powi (k + 1)" and "- 1022 \<le> k"
  shows "fl v = of_int (roundTiesToEven (v / 2 powi (k - 52))) * 2 powi (k - 52)"
proof -
  have "(0::real) < 2 powi k" by simp
  with assms(1) have "0 < \<bar>v\<bar>" by linarith
  then have "v \<noteq> 0" by auto
  moreover have "ulpExponent v = k - 52"
    using assms by (simp add: ulpExponent_def floor_log2_binade)
  ultimately show ?thesis by (simp add: fl_def)
qed

lemma fl_nonneg: "0 \<le> v \<Longrightarrow> 0 \<le> fl v"
  by (simp add: fl_def roundTiesToEven_nonneg)

lemma fl_error:
  assumes "0 < v" and "v < 16"
  shows "\<bar>fl v - v\<bar> \<le> 1 / 2 ^ 50"
proof -
  define q where "q = (2::real) powi ulpExponent v"
  have qpos: "0 < q" by (simp add: q_def)
  have "log 2 \<bar>v\<bar> < 4"
    using assms by (simp add: log_less_iff)
  then have "\<lfloor>log 2 \<bar>v\<bar>\<rfloor> \<le> 3" by linarith
  then have "ulpExponent v \<le> - 49" by (simp add: ulpExponent_def)
  then have "q \<le> 2 powi (- 49)"
    unfolding q_def by (intro power_int_increasing) simp_all
  then have q: "q \<le> 1 / 2 ^ 49"
    by (simp add: power_int_minus_divide)
  have "fl v - v = (of_int (roundTiesToEven (v / q)) - v / q) * q"
    using assms qpos by (simp add: fl_def q_def algebra_simps)
  then have "\<bar>fl v - v\<bar> = \<bar>of_int (roundTiesToEven (v / q)) - v / q\<bar> * q"
    using qpos by (simp add: abs_mult)
  also have "\<dots> \<le> 1 / 2 * q"
    using roundTiesToEven_error [of "v / q"] qpos by (intro mult_right_mono) simp_all
  also have "\<dots> \<le> 1 / 2 ^ 50"
    using q by simp
  finally show ?thesis .
qed

text \<open>The doubles of the literals \<open>0.2\<close> and \<open>0.01\<close>.\<close>

lemma fl_literal_02: "fl 0.2 = 3602879701896397 / 2 ^ 54"
  by (subst fl_binade [where k = "- 3"])
     (simp_all add: power_int_minus_divide roundTiesToEven_def Let_def)

lemma fl_literal_001: "fl 0.01 = 5764607523034235 / 2 ^ 59"
  by (subst fl_binade [where k = "- 7"])
     (simp_all add: power_int_minus_divide roundTiesToEven_def Let_def)

lemma fl_error_nonneg:
  assumes "0 \<le> v" and "v < 16"
  shows "\<bar>fl v - v\<bar> \<le> 1 / 2 ^ 50"
proof (cases "v = 0")
  case True
  then show ?thesis by (simp add: fl_def)
next
  case False
  with assms have "0 < v" by simp
  then show ?thesis using assms(2) by (rule fl_error)
qed

lemma jsAdd_step:
  assumes "0 \<le> f" and "f \<le> 10"
  shows "f < jsAdd f (fl 0.2)" and "\<bar>jsAdd f (fl 0.2) - (f + 0.2)\<bar> \<le> 1 / 2 ^ 48"
proof -
  define c where "c = fl 0.2"
  define g where "g = fl f"
  define x where "x = fl (g + c)"
  define u :: real where "u = 1 / 2 ^ 50"
  have u: "u < 1 / 100" "1 / 2 ^ 48 = 4 * u" "0 \<le> u"
    by (simp_all add: u_def)
  have js: "jsAdd f (fl 0.2) = x"
    by (simp only: jsAdd_def x_def g_def c_def fl_idempotent)
  have c1: "1 / 10 \<le> c" and c2: "c \<le> 3 / 10"
    unfolding c_def fl_literal_02 by simp_all
  have "\<bar>c - 0.2\<bar> \<le> u"
    unfolding c_def u_def by (rule fl_error) simp_all
  then have c3: "c - 0.2 \<le> u" and c4: "0.2 - c \<le> u"
    by linarith+
  from assms have "f < 16" by linarith
  with assms(1) have "\<bar>g - f\<bar> \<le> u"
    unfolding g_def u_def by (rule fl_error_nonneg)
  then have g1: "g - f \<le> u" and g2: "f - g \<le> u"
    by linarith+
  have g0: "0 \<le> g"
    unfolding g_def using assms(1) by (rule fl_nonneg)
  from assms g0 g1 c1 c2 u(1) have "0 < g + c" and "g + c < 16" by linarith+
  then have "\<bar>x - (g + c)\<bar> \<le> u"
    unfolding x_def u_def by (rule fl_error)
  then have x1: "x - (g + c) \<le> u" and x2: "(g + c) - x \<le> u"
    by linarith+
  have "f < x"
    using x2 g2 c1 u(1) by linarith
  then show "f < jsAdd f (fl 0.2)"
    by (simp only: js)
  have "\<bar>x - (f + 0.2)\<bar> \<le> 4 * u"
    using x1 x2 c3 c4 g1 g2 u(3) by linarith
  then show "\<bar>jsAdd f (fl 0.2) - (f + 0.2)\<bar> \<le> 1 / 2 ^ 48"
    by (simp only: js u(2))
qed

lemma length_slice_last: "length (slice_last n xs) = min n (length xs)"
  by (auto simp: slice_last_def)

lemma slice_last_last:
  assumes "2 \<le> n" "2 \<le> length xs"
  shows "slice_last n xs ! (length (slice_last n xs) - 1) = last xs"
proof -
  have ne: "slice_last n xs \<noteq> []"
    using assms by (auto simp: slice_last_def)
  have "last (slice_last n xs) = last xs"
    using assms by (simp add: slice_last_def)
  with ne show ?thesis
    by (simp add: last_conv_nth)
qed

lemma slice_last_prev:
  assumes "2 \<le> n" "2 \<le> length xs"
  shows "slice_last n xs ! (length (slice_last n xs) - 2) = xs ! (length xs - 2)"
proof -
  have "length xs - n + (min n (length xs) - 2) = length xs - 2"
    using assms by (simp add: min_def)
  then show ?thesis
    using assms by (simp add: slice_last_def length_slice_last [unfolded slice_last_def])
qed

lemma handPositions_wrists:
  "\<forall>hand\<in>set landmarks. hand \<noteq> [] \<Longrightarrow>
   handPositions currentTime landmarks = Inr (map (wristSample currentTime) landmarks)"
  by (induction landmarks)
     (auto simp: wristPosition_def landmark_at_def wristSample_def hd_conv_nth)

lemma hand_without_landmarks_throws:
  "isScanning s \<Longrightarrow> handsOnResults math currentTime (Some [[]]) s = Inl TypeError"
  by (simp add: handsOnResults_def analyzeHandGestures_def wristPosition_def landmark_at_def)

lemma updateHandFeatures_freq:
  "handSignFreq (updateHandFeatures math ps prev) =
     min (if 2 \<le> length (handMovementHistory prev @ ps) \<and>
             fl 0.01 < distance math (last (handMovementHistory prev @ ps))
                         ((handMovementHistory prev @ ps) ! (length (handMovementHistory prev @ ps) - 2))
          then jsAdd (handSignFreq prev) (fl 0.2) else handSignFreq prev) 10"
proof (cases "2 \<le> length (handMovementHistory prev @ ps)")
  case True
  then have "2 \<le> length (slice_last 10 (handMovementHistory prev @ ps))"
    by (simp add: length_slice_last)
  with True show ?thesis
    using slice_last_last [of 10 "handMovementHistory prev @ ps"]
      slice_last_prev [of 10 "handMovementHistory prev @ ps"]
    by (simp add: updateHandFeatures_def Let_def)
next
  case False
  then have "\<not> 2 \<le> length (slice_last 10 (handMovementHistory prev @ ps))"
    by (simp add: length_slice_last)
  with False show ?thesis
    by (simp add: updateHandFeatures_def Let_def)
qed

lemma updateHandFeatures_history:
  "handMovementHistory (updateHandFeatures math ps prev) =
     slice_last 10 (handMovementHistory prev @ ps)"
  by (simp add: updateHandFeatures_def Let_def)

lemma updateHandFeatures_other:
  "speechDetected (updateHandFeatures math ps prev) = speechDetected prev"
  "gazePattern (updateHandFeatures math ps prev) = gazePattern prev"
  "posture (updateHandFeatures math ps prev) = posture prev"
  "interactionBehavior (updateHandFeatures math ps prev) = interactionBehavior prev"
  "speechHistory (updateHandFeatures math ps prev) = speechHistory prev"
  by (simp_all add: updateHandFeatures_def Let_def)

lemma updateHandFeatures_bounds:
  assumes "0 \<le> handSignFreq prev" and "handSignFreq prev \<le> 10"
  shows "0 \<le> handSignFreq (updateHandFeatures math ps prev)"
    and "handSignFreq (updateHandFeatures math ps prev) \<le> 10"
    and "handSignFreq prev \<le> handSignFreq (updateHandFeatures math ps prev)"
  using assms jsAdd_step(1) [OF assms]
  by (auto simp: updateHandFeatures_freq min_def)

lemma observe_hands_other:
  "isScanning (observeEvent math (HandsResults currentTime ml) s) = isScanning s"
  "speechDetected (features (observeEvent math (HandsResults currentTime ml) s)) = speechDetected (features s)"
  "statsSpeechDetected (liveStats (observeEvent math (HandsResults currentTime ml) s)) = statsSpeechDetected (liveStats s)"
  "gazePattern (features (observeEvent math (HandsResults currentTime ml) s)) = gazePattern (features s)"
  "posture (features (observeEvent math (HandsResults currentTime ml) s)) = posture (features s)"
  "interactionBehavior (features (observeEvent math (HandsResults currentTime ml) s)) = interactionBehavior (features s)"
  by (auto simp: handsOnResults_def analyzeHandGestures_def updateHandFeatures_other
      split: sum.splits option.splits if_splits)

lemma observe_hands_freq:
  assumes "0 \<le> handSignFreq (features s)" and "handSignFreq (features s) \<le> 10"
  shows "0 \<le> handSignFreq (features (observeEvent math (HandsResults currentTime ml) s))"
    and "handSignFreq (features (observeEvent math (HandsResults currentTime ml) s)) \<le> 10"
    and "handSignFreq (features s)
           \<le> handSignFreq (features (observeEvent math (HandsResults currentTime ml) s))"
  using assms updateHandFeatures_bounds [OF assms]
  by (auto simp: handsOnResults_def analyzeHandGestures_def
      split: sum.splits option.splits if_splits)

lemma analyzePose_other:
  "handSignFreq (analyzePose landmarks prev) = handSignFreq prev"
  "speechDetected (analyzePose landmarks prev) = speechDetected prev"
  "gazePattern (analyzePose landmarks prev) = gazePattern prev"
  "interactionBehavior (analyzePose landmarks prev) = interactionBehavior prev"
  by (simp_all add: analyzePose_def split: option.splits)

lemma poseOnResults_other:
  "isScanning (poseOnResults pl s) = isScanning s"
  "handSignFreq (features (poseOnResults pl s)) = handSignFreq (features s)"
  "speechDetected (features (poseOnResults pl s)) = speechDetected (features s)"
  "statsSpeechDetected (liveStats (poseOnResults pl s)) = statsSpeechDetected (liveStats s)"
  "interactionBehavior (features (poseOnResults pl s)) = interactionBehavior (features s)"
  by (simp_all add: poseOnResults_def analyzePose_other Let_def split: option.splits)

lemma onresultLoop_fields:
  "onresultLoop rs (f, d) = (f', d') \<Longrightarrow>
     d' = (d \<or> list_ex isFinal rs) \<and>
     speechDetected f' = (speechDetected f \<or> list_ex isFinal rs) \<and>
     handSignFreq f' = handSignFreq f \<and> gazePattern f' = gazePattern f \<and>
     posture f' = posture f \<and> interactionBehavior f' = interactionBehavior f"
  by (induction rs arbitrary: f d) (auto split: if_splits)

lemma recognitionOnResult_fields:
  "isScanning (recognitionOnResult i rs s) = isScanning s"
  "handSignFreq (features (recognitionOnResult i rs s)) = handSignFreq (features s)"
  "gazePattern (features (recognitionOnResult i rs s)) = gazePattern (features s)"
  "posture (features (recognitionOnResult i rs s)) = posture (features s)"
  "interactionBehavior (features (recognitionOnResult i rs s)) = interactionBehavior (features s)"
  "speechDetected (features (recognitionOnResult i rs s)) =
     (speechDetected (features s) \<or> list_ex isFinal (drop i rs))"
  "statsSpeechDetected (liveStats (recognitionOnResult i rs s)) =
     (statsSpeechDetected (liveStats s) \<or> list_ex isFinal (drop i rs))"
  by (auto simp: recognitionOnResult_def split: prod.splits dest: onresultLoop_fields)

lemma poseOnResults_posture:
  "posture (features (poseOnResults pl s)) =
     (case pl of
        None \<Rightarrow> posture (features s)
      | Some landmarks \<Rightarrow>
          if isScanning s then posture (analyzePose landmarks (features s))
          else posture (features s))"
  by (simp add: poseOnResults_def Let_def split: option.splits)


lemma observe_freq:
  assumes "0 \<le> handSignFreq (features s)" and "handSignFreq (features s) \<le> 10"
  shows "0 \<le> handSignFreq (features (observeEvent math e s))"
    and "handSignFreq (features (observeEvent math e s)) \<le> 10"
    and "handSignFreq (features s) \<le> handSignFreq (features (observeEvent math e s))"
  using assms observe_hands_freq [OF assms]
  by (cases e; simp del: observeEvent.simps(1) add: poseOnResults_other recognitionOnResult_fields)+

lemma observe_keeps_freq:
  "\<not> isHandsEvent (Perceive e) \<Longrightarrow>
     handSignFreq (features (observeEvent math e s)) = handSignFreq (features s)"
  by (cases e) (simp_all add: poseOnResults_other recognitionOnResult_fields)

lemma observe_keeps_speech:
  "\<not> isSpeechEvent (Perceive e) \<Longrightarrow>
     speechDetected (features (observeEvent math e s)) = speechDetected (features s) \<and>
     statsSpeechDetected (liveStats (observeEvent math e s)) = statsSpeechDetected (liveStats s)"
  by (cases e) (simp_all del: observeEvent.simps(1) add: observe_hands_other poseOnResults_other)

lemma observe_keeps_pose:
  "\<not> isPoseEvent (Perceive e) \<Longrightarrow>
     gazePattern (features (observeEvent math e s)) = gazePattern (features s) \<and>
     posture (features (observeEvent math e s)) = posture (features s)"
  by (cases e) (simp_all del: observeEvent.simps(1) add: observe_hands_other recognitionOnResult_fields)

lemma observe_interaction:
  "interactionBehavior (features (observeEvent math e s)) = interactionBehavior (features s)"
  by (cases e)
     (simp_all del: observeEvent.simps(1)
        add: observe_hands_other poseOnResults_other recognitionOnResult_fields)

text \<open>
  A property of renders that no change of \<open>isScanning\<close> and no perception event of
  the actions breaks holds of every render a later \<open>completeScan\<close> reads, and every
  scan result handed over is built from a render that has it.
\<close>

lemma perform_renders:
  assumes inv: "\<forall>r\<in>renders c. P r"
    and flag: "\<And>r b. P r \<Longrightarrow> P (r\<lparr>isScanning := b\<rparr>)"
    and ev: "\<And>e r. a = Perceive e \<Longrightarrow> P r \<Longrightarrow> P (observeEvent math e r)"
  shows "(\<forall>r\<in>renders (fst (perform math a c)). P r) \<and>
         (\<forall>v. snd (perform math a c) = Some v \<longrightarrow>
            (\<exists>now r. P r \<and> v = \<lparr>resultFeatures = buildScanFeatures now r, duration = scanDuration\<rparr>))"
proof (cases a)
  case (Start g)
  with inv flag show ?thesis
    by (auto simp: renders_def startScan_def startGuidedSteps_def)
next
  case (Perceive e)
  with inv ev show ?thesis
    by (auto simp: renders_def)
next
  case Stop
  with inv flag show ?thesis
    by (auto simp: renders_def stopScan_def)
next
  case (TimeoutFires now)
  with inv flag show ?thesis
    by (fastforce simp: renders_def completeScan_def split: list.splits)
next
  case (IntervalEnds now)
  show ?thesis
  proof (cases "progressInterval c")
    case None
    with IntervalEnds inv show ?thesis by simp
  next
    case (Some render)
    with inv have "P render" by (simp add: renders_def)
    with IntervalEnds Some inv flag show ?thesis
      by (cases "isScanning render")
         (auto simp: renders_def completeScan_def progressComplete_def)
  qed
qed

lemma run_renders:
  assumes "\<forall>a\<in>set acts. Q a" and "\<forall>r\<in>renders c. P r"
    and flag: "\<And>r b. P r \<Longrightarrow> P (r\<lparr>isScanning := b\<rparr>)"
    and ev: "\<And>e r. Q (Perceive e) \<Longrightarrow> P r \<Longrightarrow> P (observeEvent math e r)"
  shows "(\<forall>r\<in>renders (run math acts c). P r) \<and>
         (\<forall>v\<in>set (handedOver math acts c).
            \<exists>now r. P r \<and> v = \<lparr>resultFeatures = buildScanFeatures now r, duration = scanDuration\<rparr>)"
  using assms(1,2)
proof (induction acts arbitrary: c)
  case Nil
  then show ?case by simp
next
  case (Cons a acts)
  from Cons.prems have q: "Q a" and qs: "\<forall>a\<in>set acts. Q a" by simp_all
  have step: "(\<forall>r\<in>renders (fst (perform math a c)). P r) \<and>
         (\<forall>v. snd (perform math a c) = Some v \<longrightarrow>
            (\<exists>now r. P r \<and> v = \<lparr>resultFeatures = buildScanFeatures now r, duration = scanDuration\<rparr>))"
    using Cons.prems(2) flag ev q by (intro perform_renders) auto
  from Cons.IH [OF qs] step show ?case
    by (auto split: option.splits)
qed

lemma current_in_renders: "current c \<in> renders c"
  by (simp add: renders_def)

lemma renders_initial: "renders initial_component = {initial_scanner}"
  by (simp add: renders_def initial_component_def)

lemma perform_current:
  "(\<exists>e. a = Perceive e \<and> current (fst (perform math a c)) = observeEvent math e (current c)) \<or>
   (\<exists>b. current (fst (perform math a c)) = (current c)\<lparr>isScanning := b\<rparr>)"
proof (cases a)
  case (Start g)
  then show ?thesis
    by (cases g) (auto simp: startScan_def startGuidedSteps_def intro: exI [of _ "isScanning (current c)"])
next
  case (TimeoutFires now)
  then show ?thesis
    by (auto simp: completeScan_def split: list.splits intro: exI [of _ "isScanning (current c)"])
next
  case (IntervalEnds now)
  then show ?thesis
    by (auto simp: completeScan_def progressComplete_def split: option.splits
        intro: exI [of _ "isScanning (current c)"])
qed (auto simp: stopScan_def)

lemmas scan_defs =
  startScan_def startGuidedSteps_def stopScan_def completeScan_def progressComplete_def
  buildScanFeatures_def neutralFeatures_def recognitionOnResult_def initial_component_def
  initial_scanner_def initial_features_def initial_liveStats_def orNull_def scanDuration_def
  slice_last_def

lemma min_close:
  fixes x y c d :: real
  shows "\<bar>x - y\<bar> \<le> d \<Longrightarrow> \<bar>min x c - min y c\<bar> \<le> d"
  unfolding min_def by (cases "x \<le> c"; cases "y \<le> c"; simp; linarith)

lemma hand_frame_result:
  assumes "isScanning s" and "\<forall>hand\<in>set landmarks. hand \<noteq> []" and "landmarks \<noteq> []"
  shows "handsOnResults math currentTime (Some landmarks) s =
     Inr (s\<lparr>features := updateHandFeatures math (map (wristSample currentTime) landmarks) (features s),
            liveStats := (liveStats s)\<lparr>gesturesCount := gesturesCount (liveStats s) + 1,
                                       handsDetected := length landmarks\<rparr>\<rparr>)"
  using assms
  by (simp add: handsOnResults_def analyzeHandGestures_def handPositions_wrists)

text \<open>Values of \<open>fl\<close> the evaluations below need.\<close>

lemma fl_zero: "fl 0 = 0"
  by (simp add: fl_def)

lemma fl_half: "fl (1 / 2) = 1 / 2"
  by (rule fl_exact [where m = 1 and e = "- 1"]) (simp_all add: power_int_minus_divide)

lemma fl_two: "fl 2 = 2"
  by (rule fl_exact [where m = 1 and e = 1]) simp_all

lemma fl_quarter: "fl (1 / 4) = 1 / 4" "fl (- (1 / 4)) = - (1 / 4)"
  by (subst fl_binade [where k = "- 2"];
      simp add: power_int_minus_divide roundTiesToEven_def Let_def)+

lemma fl_sixteenth: "fl (1 / 16) = 1 / 16"
  by (subst fl_binade [where k = "- 4"])
     (simp_all add: power_int_minus_divide roundTiesToEven_def Let_def)

lemma sqrt_sixteenth: "sqrt (1 / 16) = 1 / 4"
  by (rule real_sqrt_unique) (simp_all add: power2_eq_square)

lemma fl_step_exact:
  "fl (3602879701896397 / 2 ^ 53) = 3602879701896397 / 2 ^ 53"
  by (rule fl_exact [where m = 3602879701896397 and e = "- 53"])
     (simp_all add: power_int_minus_divide)

lemma fl_step_sums:
  "fl (3602879701896397 / 2 ^ 54) = 3602879701896397 / 2 ^ 54"
  "fl (3602879701896397 / 2 ^ 54 + 3602879701896397 / 2 ^ 54) = 3602879701896397 / 2 ^ 53"
  "fl (3602879701896397 / 2 ^ 53 + 3602879701896397 / 2 ^ 54) = 1351079888211149 / 2 ^ 51"
    apply (subst fl_binade [where k = "- 3"]; simp add: power_int_minus_divide roundTiesToEven_def Let_def)
   apply (subst fl_binade [where k = "- 2"]; simp add: power_int_minus_divide roundTiesToEven_def Let_def)
  apply (subst fl_binade [where k = "- 1"]; simp add: power_int_minus_divide roundTiesToEven_def Let_def)
  done

lemma distance_quarter:
  "distance correctlyRounded \<lparr>px = 1 / 2, py = 1 / 2, pz = 0, ptime = t\<rparr>
     \<lparr>px = 1 / 4, py = 1 / 2, pz = 0, ptime = u\<rparr> = 1 / 4"
  "distance correctlyRounded \<lparr>px = 1 / 4, py = 1 / 2, pz = 0, ptime = t\<rparr>
     \<lparr>px = 1 / 2, py = 1 / 2, pz = 0, ptime = u\<rparr> = 1 / 4"
  by (simp_all add: distance_def correctlyRounded_def jsAdd_def jsSub_def fl_zero fl_half
      fl_quarter fl_sixteenth fl_idempotent sqrt_sixteenth power2_eq_square)

lemma observe_one_hand:
  assumes "isScanning s"
  shows "observeEvent math (HandsResults t (Some [[w]])) s =
     s\<lparr>features := updateHandFeatures math [wristSample t [w]] (features s),
       liveStats := (liveStats s)\<lparr>gesturesCount := gesturesCount (liveStats s) + 1,
                                  handsDetected := 1\<rparr>\<rparr>"
  using hand_frame_result [OF assms, of "[[w]]" math t] by simp

lemma threshold_below_quarter: "fl (1 / 100) * 4 < 1"
proof -
  have "fl (1 / 100) = fl 0.01" by simp
  also have "\<dots> = 5764607523034235 / 2 ^ 59" by (rule fl_literal_001)
  finally show ?thesis by simp
qed

lemma step_values:
  "min (jsAdd 0 (fl 0.2)) 10 = 3602879701896397 / 2 ^ 54"
  "min (jsAdd (3602879701896397 / 2 ^ 54) (fl 0.2)) 10 = 3602879701896397 / 2 ^ 53"
  "min (jsAdd (3602879701896397 / 2 ^ 53) (fl 0.2)) 10 = 1351079888211149 / 2 ^ 51"
proof -
  have m: "min (3602879701896397 / 2 ^ 54) 10 = (3602879701896397 / 2 ^ 54 :: real)"
    "min (3602879701896397 / 2 ^ 53) 10 = (3602879701896397 / 2 ^ 53 :: real)"
    "min (1351079888211149 / 2 ^ 51) 10 = (1351079888211149 / 2 ^ 51 :: real)"
    by simp_all
  show "min (jsAdd 0 (fl 0.2)) 10 = 3602879701896397 / 2 ^ 54"
    unfolding jsAdd_def fl_literal_02 by (simp only: fl_zero add_0 fl_step_sums(1) m)
  show "min (jsAdd (3602879701896397 / 2 ^ 54) (fl 0.2)) 10 = 3602879701896397 / 2 ^ 53"
    unfolding jsAdd_def fl_literal_02 by (simp only: fl_step_sums(1,2) m)
  show "min (jsAdd (3602879701896397 / 2 ^ 53) (fl 0.2)) 10 = 1351079888211149 / 2 ^ 51"
    unfolding jsAdd_def fl_literal_02 by (simp only: fl_step_exact fl_step_sums(1,3) m)
qed

lemma moving_frames_symbolic:
  "handSignFreq (features (current (run correctlyRounded
      [Start True,
       Perceive (HandsResults 0 (Some [[\<lparr>lx = 0.25, ly = 0.5, lz = 0\<rparr>]])),
       Perceive (HandsResults 40 (Some [[\<lparr>lx = 0.5, ly = 0.5, lz = 0\<rparr>]])),
       Perceive (HandsResults 80 (Some [[\<lparr>lx = 0.25, ly = 0.5, lz = 0\<rparr>]]))]
      initial_component))) =
     min (jsAdd (min (jsAdd 0 (fl 0.2)) 10) (fl 0.2)) 10"
  "handSignFreq (features (current (run correctlyRounded
      [Start True,
       Perceive (HandsResults 0 (Some [[\<lparr>lx = 0.25, ly = 0.5, lz = 0\<rparr>]])),
       Perceive (HandsResults 40 (Some [[\<lparr>lx = 0.5, ly = 0.5, lz = 0\<rparr>]])),
       Perceive (HandsResults 80 (Some [[\<lparr>lx = 0.25, ly = 0.5, lz = 0\<rparr>]])),
       Perceive (HandsResults 120 (Some [[\<lparr>lx = 0.5, ly = 0.5, lz = 0\<rparr>]]))]
      initial_component))) =
     min (jsAdd (min (jsAdd (min (jsAdd 0 (fl 0.2)) 10) (fl 0.2)) 10) (fl 0.2)) 10"
  by (simp_all del: observeEvent.simps(1)
      add: observe_one_hand startScan_def startGuidedSteps_def initial_component_def
        initial_scanner_def initial_features_def updateHandFeatures_def slice_last_def
        wristSample_def distance_quarter threshold_below_quarter Let_def)

text \<open>The doubles \<open>0.348\<close>, \<open>0.414\<close>, \<open>0.547\<close> and \<open>0.615\<close> as hip and ankle heights.\<close>

lemma posture_sample_exact:
  "fl (3134505340649865 / 2 ^ 53) = 3134505340649865 / 2 ^ 53"
  "fl (7457960982925541 / 2 ^ 54) = 7457960982925541 / 2 ^ 54"
  "fl (4926937992343323 / 2 ^ 53) = 4926937992343323 / 2 ^ 53"
  "fl (2769713770832855 / 2 ^ 52) = 2769713770832855 / 2 ^ 52"
  "fl (1715871458028159 / 2 ^ 51) = 1715871458028159 / 2 ^ 51"
  "fl (1715871458028159 / 2 ^ 52) = 1715871458028159 / 2 ^ 52"
  "fl (1308295691751129 / 2 ^ 50) = 1308295691751129 / 2 ^ 50"
  "fl (1308295691751129 / 2 ^ 51) = 1308295691751129 / 2 ^ 51"
         apply (rule fl_exact [where m = 3134505340649865 and e = "- 53"]; simp add: power_int_minus_divide)
        apply (rule fl_exact [where m = 7457960982925541 and e = "- 54"]; simp add: power_int_minus_divide)
       apply (rule fl_exact [where m = 4926937992343323 and e = "- 53"]; simp add: power_int_minus_divide)
      apply (rule fl_exact [where m = 2769713770832855 and e = "- 52"]; simp add: power_int_minus_divide)
     apply (rule fl_exact [where m = 1715871458028159 and e = "- 51"]; simp add: power_int_minus_divide)
    apply (rule fl_exact [where m = 1715871458028159 and e = "- 52"]; simp add: power_int_minus_divide)
   apply (rule fl_exact [where m = 1308295691751129 and e = "- 50"]; simp add: power_int_minus_divide)
  apply (rule fl_exact [where m = 1308295691751129 and e = "- 51"]; simp add: power_int_minus_divide)
  done

lemma posture_sample_values:
  "fl (3134505340649865 / 2 ^ 53 + 7457960982925541 / 2 ^ 54) = 1715871458028159 / 2 ^ 51"
  "fl (1715871458028159 / 2 ^ 51 / 2) = 1715871458028159 / 2 ^ 52"
  "fl (4926937992343323 / 2 ^ 53 + 2769713770832855 / 2 ^ 52) = 1308295691751129 / 2 ^ 50"
  "fl (1308295691751129 / 2 ^ 50 / 2) = 1308295691751129 / 2 ^ 51"
  "fl (1715871458028159 / 2 ^ 52 - 1308295691751129 / 2 ^ 51) = - (900719925474099 / 2 ^ 52)"
      apply (subst fl_binade [where k = "- 1"]; simp add: power_int_minus_divide roundTiesToEven_def Let_def)
     apply (subst fl_binade [where k = "- 2"]; simp add: power_int_minus_divide roundTiesToEven_def Let_def)
    apply (subst fl_binade [where k = "0"]; simp add: power_int_minus_divide roundTiesToEven_def Let_def)
   apply (subst fl_binade [where k = "- 1"]; simp add: power_int_minus_divide roundTiesToEven_def Let_def)
  apply (subst fl_binade [where k = "- 3"]; simp add: power_int_minus_divide roundTiesToEven_def Let_def)
  done

lemma posture_sample_seated:
  "(\<bar>jsSub (jsDiv (jsAdd (3134505340649865 / 2 ^ 53) (7457960982925541 / 2 ^ 54)) 2)
           (jsDiv (jsAdd (4926937992343323 / 2 ^ 53) (2769713770832855 / 2 ^ 52)) 2)\<bar> < fl 0.2) = True"
proof -
  have "\<bar>- (900719925474099 / 2 ^ 52 :: real)\<bar> < 3602879701896397 / 2 ^ 54"
    by simp
  then show ?thesis
    unfolding jsAdd_def jsSub_def jsDiv_def
    by (simp only: posture_sample_exact fl_two posture_sample_values fl_literal_02)
qed

lemma hips_and_ankles_at:
  "landmark_at (replicate 23 filler @ [a, b, c, d, e, f]) 23 = Some a"
  "landmark_at (replicate 23 filler @ [a, b, c, d, e, f]) 24 = Some b"
  "landmark_at (replicate 23 filler @ [a, b, c, d, e, f]) 27 = Some e"
  "landmark_at (replicate 23 filler @ [a, b, c, d, e, f]) 28 = Some f"
  by (simp_all add: landmark_at_def nth_append)

section \<open>The accept button\<close>

text \<open>
  Claim C1, as the card has it: for every recommendation the card shows, the button
  Accept Recommendation is enabled exactly when the confidence is strictly greater than
  0.7. At a confidence of exactly 0.7 the button is disabled and the low-confidence
  warning is shown.
\<close>

theorem accept_enabled_iff_above_threshold:
  "\<exists>c. RecommendationCard (Some r) = Some c \<and> (\<not> acceptDisabled c) = (0.7 < confidence r)"
  by (simp add: RecommendationCard_def isHighConfidence_def)

theorem accept_enabled_iff_above_threshold_witness:
  "\<exists>c. RecommendationCard (Some \<lparr>recMode = Sign, confidence = 0.92, cues = [], scores = []\<rparr>) = Some c \<and>
       \<not> acceptDisabled c"
  using accept_enabled_iff_above_threshold
    [of "\<lparr>recMode = Sign, confidence = 0.92, cues = [], scores = []\<rparr>"]
  by simp

text \<open>At the threshold itself the button is disabled.\<close>

theorem accept_disabled_at_threshold:
  "RecommendationCard (Some \<lparr>recMode = Sign, confidence = 0.7, cues = [], scores = [(Sign, 0.7)]\<rparr>) =
     Some \<lparr>confidencePercent = 70, lowConfidenceWarning = True, shownCues = [],
           shownScores = [(Sign, 70)], acceptDisabled = True\<rparr>"
  by (simp add: RecommendationCard_def isHighConfidence_def round_def)

section \<open>Stopping a scan\<close>

text \<open>
  Claim C2, at a scan that is stopped after speech was observed: \<open>stopScan\<close> hands
  nothing over, although the features hold the speech. The timeout that the Start
  click set is still pending; when it fires, \<open>completeScan\<close> of the Start-click render
  hands over the vector of that render, all neutral, not the one of what was observed.
\<close>

theorem stopped_scan_hands_over_stale_vector:
  "handedOver math
     [Start True, Perceive (SpeechResult 0 [\<lparr>isFinal = True, transcript = ''hello''\<rparr>]), Stop]
     initial_component = [] \<and>
   speechDetected (features (current (run math
     [Start True, Perceive (SpeechResult 0 [\<lparr>isFinal = True, transcript = ''hello''\<rparr>]), Stop]
     initial_component))) \<and>
   handedOver math
     [Start True, Perceive (SpeechResult 0 [\<lparr>isFinal = True, transcript = ''hello''\<rparr>]), Stop,
      TimeoutFires ''t''] initial_component =
     [\<lparr>resultFeatures = neutralFeatures ''t'', duration = 20000\<rparr>]"
  by (simp add: scan_defs)

section \<open>The hand-sign frequency\<close>

text \<open>
  Claim C3, as the scanner has it: a hands result that arrives while scanning, every
  hand of it with its landmarks, appends the wrist of each hand to the history and
  keeps the last 10 samples. The displacement of the last two samples is
  \<open>Math.sqrt(Math.pow(dx, 2) + Math.pow(dy, 2))\<close> in double arithmetic. When there are
  two samples and it exceeds the double \<open>0.01\<close>, the frequency becomes the double sum
  of the frequency and \<open>0.2\<close>, otherwise it stays, and the result is capped at 10. For
  a frequency in the range from 0 to 10 the new value is within \<open>1 / 2 ^ 48\<close> of the
  capped exact sum, and is the old value when there was no movement. A result with no
  hand changes no feature.
\<close>

theorem hand_frame_updates_frequency:
  assumes "isScanning s" and "\<forall>hand\<in>set landmarks. hand \<noteq> []"
  shows "let history = handMovementHistory (features s) @ map (wristSample currentTime) landmarks;
             lastPos = last history;
             prevPos = history ! (length history - 2);
             displacement =
               mathSqrt math
                 (jsAdd (mathPow math (jsSub (px lastPos) (px prevPos)) 2)
                        (mathPow math (jsSub (py lastPos) (py prevPos)) 2));
             moved = (2 \<le> length history \<and> fl 0.01 < displacement)
         in \<exists>s'. handsOnResults math currentTime (Some landmarks) s = Inr s' \<and>
              (landmarks = [] \<longrightarrow> features s' = features s) \<and>
              (landmarks \<noteq> [] \<longrightarrow>
                 handMovementHistory (features s') = slice_last 10 history \<and>
                 length (handMovementHistory (features s')) \<le> 10 \<and>
                 handSignFreq (features s') =
                   min (if moved then jsAdd (handSignFreq (features s)) (fl 0.2)
                        else handSignFreq (features s)) 10 \<and>
                 (0 \<le> handSignFreq (features s) \<longrightarrow> handSignFreq (features s) \<le> 10 \<longrightarrow>
                    (if moved
                     then \<bar>handSignFreq (features s') - min (handSignFreq (features s) + 0.2) 10\<bar>
                            \<le> 1 / 2 ^ 48
                     else handSignFreq (features s') = handSignFreq (features s))))"
proof (cases "landmarks = []")
  case True
  with assms show ?thesis
    by (simp add: handsOnResults_def analyzeHandGestures_def Let_def)
next
  case False
  define f where "f = handSignFreq (features s)"
  define history where
    "history = handMovementHistory (features s) @ map (wristSample currentTime) landmarks"
  define moved where
    "moved = (2 \<le> length history \<and>
        fl 0.01 < mathSqrt math
          (jsAdd (mathPow math (jsSub (px (last history)) (px (history ! (length history - 2)))) 2)
                 (mathPow math (jsSub (py (last history)) (py (history ! (length history - 2)))) 2)))"
  define s' where
    "s' = s\<lparr>features := updateHandFeatures math (map (wristSample currentTime) landmarks) (features s),
            liveStats := (liveStats s)\<lparr>gesturesCount := gesturesCount (liveStats s) + 1,
                                       handsDetected := length landmarks\<rparr>\<rparr>"
  have res: "handsOnResults math currentTime (Some landmarks) s = Inr s'"
    unfolding s'_def using assms False by (rule hand_frame_result)
  have hist: "handMovementHistory (features s') = slice_last 10 history"
    by (simp add: s'_def history_def updateHandFeatures_history)
  have len: "length (handMovementHistory (features s')) \<le> 10"
    by (simp add: hist length_slice_last)
  have freq: "handSignFreq (features s') = min (if moved then jsAdd f (fl 0.2) else f) 10"
    unfolding s'_def moved_def history_def f_def
    by (simp add: updateHandFeatures_freq distance_def)
  have near: "\<bar>handSignFreq (features s') - min (f + 0.2) 10\<bar> \<le> 1 / 2 ^ 48"
    if "moved" "0 \<le> f" "f \<le> 10"
  proof -
    have "\<bar>jsAdd f (fl 0.2) - (f + 0.2)\<bar> \<le> 1 / 2 ^ 48"
      by (rule jsAdd_step(2) [OF that(2,3)])
    then have "\<bar>min (jsAdd f (fl 0.2)) 10 - min (f + 0.2) 10\<bar> \<le> 1 / 2 ^ 48"
      by (rule min_close)
    with that(1) show ?thesis by (simp only: freq if_True)
  qed
  have same: "handSignFreq (features s') = f" if "\<not> moved" "f \<le> 10"
    using that by (simp add: freq)
  have tail: "if moved then \<bar>handSignFreq (features s') - min (f + 0.2) 10\<bar> \<le> 1 / 2 ^ 48
             else handSignFreq (features s') = f" if "0 \<le> f" "f \<le> 10"
  proof (cases moved)
    case True
    with near [OF True that] show ?thesis by (simp only: if_True)
  next
    case False
    with same [OF False that(2)] show ?thesis by (simp only: if_False)
  qed
  have "handsOnResults math currentTime (Some landmarks) s = Inr s' \<and>
      (landmarks = [] \<longrightarrow> features s' = features s) \<and>
      (landmarks \<noteq> [] \<longrightarrow>
         handMovementHistory (features s') = slice_last 10 history \<and>
         length (handMovementHistory (features s')) \<le> 10 \<and>
         handSignFreq (features s') = min (if moved then jsAdd f (fl 0.2) else f) 10 \<and>
         (0 \<le> f \<longrightarrow> f \<le> 10 \<longrightarrow>
            (if moved then \<bar>handSignFreq (features s') - min (f + 0.2) 10\<bar> \<le> 1 / 2 ^ 48
             else handSignFreq (features s') = f)))"
  proof (intro conjI impI)
    show "handsOnResults math currentTime (Some landmarks) s = Inr s'" by (rule res)
    show "features s' = features s" if "landmarks = []" using that False by simp
    show "handMovementHistory (features s') = slice_last 10 history" by (rule hist)
    show "length (handMovementHistory (features s')) \<le> 10" by (rule len)
    show "handSignFreq (features s') = min (if moved then jsAdd f (fl 0.2) else f) 10" by (rule freq)
    show "if moved then \<bar>handSignFreq (features s') - min (f + 0.2) 10\<bar> \<le> 1 / 2 ^ 48
          else handSignFreq (features s') = f" if "0 \<le> f" "f \<le> 10"
      using that by (rule tail)
  qed
  then show ?thesis
    unfolding Let_def f_def history_def moved_def by (rule exI [of _ s'])
qed

theorem hand_frame_updates_frequency_witness:
  "(\<exists>s'. handsOnResults correctlyRounded 0
          (Some [[\<lparr>lx = 0.25, ly = 0.5, lz = 0\<rparr>], [\<lparr>lx = 0.5, ly = 0.5, lz = 0\<rparr>]])
          (current (startScan True initial_component)) = Inr s' \<and>
        handSignFreq (features s') = 3602879701896397 / 2 ^ 54 \<and>
        length (handMovementHistory (features s')) = 2) \<and>
   (\<exists>s'. handsOnResults correctlyRounded 0
          (Some [[\<lparr>lx = 0.25, ly = 0.5, lz = 0\<rparr>], [\<lparr>lx = 0.25, ly = 0.5, lz = 0\<rparr>]])
          (current (startScan True initial_component)) = Inr s' \<and>
        handSignFreq (features s') = 0) \<and>
   (\<exists>s'. handsOnResults correctlyRounded 0 (Some []) (current (startScan True initial_component)) = Inr s' \<and>
        features s' = initial_features)"
proof -
  let ?s = "current (startScan True initial_component)"
  have scanning: "isScanning ?s"
    by (simp add: startScan_def startGuidedSteps_def)
  have same: "distance correctlyRounded \<lparr>px = 1 / 4, py = 1 / 2, pz = 0, ptime = 0\<rparr>
      \<lparr>px = 1 / 4, py = 1 / 2, pz = 0, ptime = 0\<rparr> = 0"
    by (simp add: distance_def correctlyRounded_def jsAdd_def jsSub_def fl_zero fl_quarter fl_half)
  have low: "0 \<le> fl (1 / 100)"
    by (rule fl_nonneg) simp
  have "\<exists>s'. handsOnResults correctlyRounded 0
          (Some [[\<lparr>lx = 0.25, ly = 0.5, lz = 0\<rparr>], [\<lparr>lx = 0.5, ly = 0.5, lz = 0\<rparr>]]) ?s = Inr s' \<and>
        handSignFreq (features s') = min (jsAdd 0 (fl 0.2)) 10 \<and>
        length (handMovementHistory (features s')) = 2"
    using hand_frame_updates_frequency [OF scanning, of
        "[[\<lparr>lx = 0.25, ly = 0.5, lz = 0\<rparr>], [\<lparr>lx = 0.5, ly = 0.5, lz = 0\<rparr>]]" 0 correctlyRounded]
      distance_quarter(1) [of 0 0] threshold_below_quarter
    by (auto simp: Let_def startScan_def startGuidedSteps_def initial_component_def
        initial_scanner_def initial_features_def wristSample_def slice_last_def distance_def)
  then have moved: "\<exists>s'. handsOnResults correctlyRounded 0
          (Some [[\<lparr>lx = 0.25, ly = 0.5, lz = 0\<rparr>], [\<lparr>lx = 0.5, ly = 0.5, lz = 0\<rparr>]]) ?s = Inr s' \<and>
        handSignFreq (features s') = 3602879701896397 / 2 ^ 54 \<and>
        length (handMovementHistory (features s')) = 2"
    by (simp only: step_values)
  have still: "\<exists>s'. handsOnResults correctlyRounded 0
          (Some [[\<lparr>lx = 0.25, ly = 0.5, lz = 0\<rparr>], [\<lparr>lx = 0.25, ly = 0.5, lz = 0\<rparr>]]) ?s = Inr s' \<and>
        handSignFreq (features s') = 0"
    using hand_frame_updates_frequency [OF scanning, of
        "[[\<lparr>lx = 0.25, ly = 0.5, lz = 0\<rparr>], [\<lparr>lx = 0.25, ly = 0.5, lz = 0\<rparr>]]" 0 correctlyRounded]
      same low
    by (auto simp: Let_def startScan_def startGuidedSteps_def initial_component_def
        initial_scanner_def initial_features_def wristSample_def slice_last_def distance_def)
  have none: "\<exists>s'. handsOnResults correctlyRounded 0 (Some []) ?s = Inr s' \<and>
        features s' = initial_features"
    using hand_frame_updates_frequency [OF scanning, of "[]" 0 correctlyRounded]
    by (auto simp: Let_def startScan_def startGuidedSteps_def initial_component_def initial_scanner_def)
  from moved still none show ?thesis by blast
qed

text \<open>
  Three movements in a row: the frequency is the double \<open>0.4\<close> after the second and
  \<open>0.6000000000000001\<close> after the third, so the third increase is neither \<open>0.2\<close> nor
  the double \<open>0.2\<close>.
\<close>

theorem third_movement_not_by_step:
  "handSignFreq (features (current (run correctlyRounded
      [Start True,
       Perceive (HandsResults 0 (Some [[\<lparr>lx = 0.25, ly = 0.5, lz = 0\<rparr>]])),
       Perceive (HandsResults 40 (Some [[\<lparr>lx = 0.5, ly = 0.5, lz = 0\<rparr>]])),
       Perceive (HandsResults 80 (Some [[\<lparr>lx = 0.25, ly = 0.5, lz = 0\<rparr>]]))]
      initial_component))) = 3602879701896397 / 2 ^ 53 \<and>
   handSignFreq (features (current (run correctlyRounded
      [Start True,
       Perceive (HandsResults 0 (Some [[\<lparr>lx = 0.25, ly = 0.5, lz = 0\<rparr>]])),
       Perceive (HandsResults 40 (Some [[\<lparr>lx = 0.5, ly = 0.5, lz = 0\<rparr>]])),
       Perceive (HandsResults 80 (Some [[\<lparr>lx = 0.25, ly = 0.5, lz = 0\<rparr>]])),
       Perceive (HandsResults 120 (Some [[\<lparr>lx = 0.5, ly = 0.5, lz = 0\<rparr>]]))]
      initial_component))) = 1351079888211149 / 2 ^ 51 \<and>
   (1351079888211149 / 2 ^ 51 - 3602879701896397 / 2 ^ 53 :: real) \<noteq> 0.2 \<and>
   (1351079888211149 / 2 ^ 51 - 3602879701896397 / 2 ^ 53 :: real) \<noteq> fl 0.2"
proof -
  have "(1351079888211149 / 2 ^ 51 - 3602879701896397 / 2 ^ 53 :: real) \<noteq> 0.2"
    by simp
  moreover have "(1351079888211149 / 2 ^ 51 - 3602879701896397 / 2 ^ 53 :: real) \<noteq> fl 0.2"
    unfolding fl_literal_02 by simp
  ultimately show ?thesis
    by (simp only: moving_frames_symbolic step_values simp_thms)
qed

text \<open>
  Claim C4: after any sequence of actions on a freshly mounted scanner the hand-sign
  frequency lies in the range from 0 to 10; any further action leaves it at least as
  large and at most 10; and every vector handed over carries a value in that range.
\<close>

theorem handSignFreq_bounded_monotone:
  "0 \<le> handSignFreq (features (current (run math acts initial_component))) \<and>
   handSignFreq (features (current (run math acts initial_component))) \<le> 10 \<and>
   handSignFreq (features (current (run math acts initial_component)))
     \<le> handSignFreq (features (current (fst (perform math a (run math acts initial_component))))) \<and>
   handSignFreq (features (current (fst (perform math a (run math acts initial_component))))) \<le> 10 \<and>
   (\<forall>v\<in>set (handedOver math acts initial_component).
      0 \<le> outHandSignFreq (resultFeatures v) \<and> outHandSignFreq (resultFeatures v) \<le> 10)"
proof -
  let ?P = "\<lambda>r. 0 \<le> handSignFreq (features r) \<and> handSignFreq (features r) \<le> 10"
  let ?c = "run math acts initial_component"
  have inv: "(\<forall>r\<in>renders ?c. ?P r) \<and>
      (\<forall>v\<in>set (handedOver math acts initial_component).
         \<exists>now r. ?P r \<and> v = \<lparr>resultFeatures = buildScanFeatures now r, duration = scanDuration\<rparr>)"
    by (rule run_renders [where Q = "\<lambda>a. True"])
       (simp_all add: renders_initial initial_scanner_def initial_features_def observe_freq)
  then have cur: "?P (current ?c)"
    using current_in_renders [of ?c] by blast
  have step: "handSignFreq (features (current ?c))
        \<le> handSignFreq (features (current (fst (perform math a ?c)))) \<and>
      handSignFreq (features (current (fst (perform math a ?c)))) \<le> 10"
    using perform_current [of a math ?c] cur observe_freq [of "current ?c" math]
    by auto
  have out: "\<forall>v\<in>set (handedOver math acts initial_component).
      0 \<le> outHandSignFreq (resultFeatures v) \<and> outHandSignFreq (resultFeatures v) \<le> 10"
    using inv by (fastforce simp: buildScanFeatures_def)
  from cur step out show ?thesis by blast
qed

theorem handSignFreq_bounded_monotone_witness:
  "handSignFreq (features (current (run correctlyRounded
      [Start True,
       Perceive (HandsResults 0 (Some [[\<lparr>lx = 0.25, ly = 0.5, lz = 0\<rparr>]])),
       Perceive (HandsResults 40 (Some [[\<lparr>lx = 0.5, ly = 0.5, lz = 0\<rparr>]])),
       Perceive (HandsResults 80 (Some [[\<lparr>lx = 0.25, ly = 0.5, lz = 0\<rparr>]]))]
      initial_component))) = 3602879701896397 / 2 ^ 53 \<and>
   3602879701896397 / 2 ^ 53
     \<le> handSignFreq (features (current (fst (perform correctlyRounded
          (Perceive (HandsResults 120 (Some [[\<lparr>lx = 0.5, ly = 0.5, lz = 0\<rparr>]])))
          (run correctlyRounded
      [Start True,
       Perceive (HandsResults 0 (Some [[\<lparr>lx = 0.25, ly = 0.5, lz = 0\<rparr>]])),
       Perceive (HandsResults 40 (Some [[\<lparr>lx = 0.5, ly = 0.5, lz = 0\<rparr>]])),
       Perceive (HandsResults 80 (Some [[\<lparr>lx = 0.25, ly = 0.5, lz = 0\<rparr>]]))]
      initial_component))))) \<and>
   handedOver correctlyRounded
      [Start True,
       Perceive (HandsResults 0 (Some [[\<lparr>lx = 0.25, ly = 0.5, lz = 0\<rparr>]])),
       Perceive (HandsResults 40 (Some [[\<lparr>lx = 0.5, ly = 0.5, lz = 0\<rparr>]])),
       Perceive (HandsResults 80 (Some [[\<lparr>lx = 0.25, ly = 0.5, lz = 0\<rparr>]])),
       TimeoutFires ''t'']
      initial_component = [\<lparr>resultFeatures = neutralFeatures ''t'', duration = 20000\<rparr>]"
proof -
  let ?acts = "[Start True,
       Perceive (HandsResults 0 (Some [[\<lparr>lx = 0.25, ly = 0.5, lz = 0\<rparr>]])),
       Perceive (HandsResults 40 (Some [[\<lparr>lx = 0.5, ly = 0.5, lz = 0\<rparr>]])),
       Perceive (HandsResults 80 (Some [[\<lparr>lx = 0.25, ly = 0.5, lz = 0\<rparr>]]))]"
  have v: "handSignFreq (features (current (run correctlyRounded ?acts initial_component)))
      = 3602879701896397 / 2 ^ 53"
    by (simp only: moving_frames_symbolic step_values)
  have h: "handedOver correctlyRounded (?acts @ [TimeoutFires ''t'']) initial_component =
      [\<lparr>resultFeatures = neutralFeatures ''t'', duration = 20000\<rparr>]"
    by (simp del: observeEvent.simps add: scan_defs)
  from handSignFreq_bounded_monotone [of correctlyRounded ?acts
      "Perceive (HandsResults 120 (Some [[\<lparr>lx = 0.5, ly = 0.5, lz = 0\<rparr>]]))"]
  have "handSignFreq (features (current (run correctlyRounded ?acts initial_component)))
     \<le> handSignFreq (features (current (fst (perform correctlyRounded
          (Perceive (HandsResults 120 (Some [[\<lparr>lx = 0.5, ly = 0.5, lz = 0\<rparr>]])))
          (run correctlyRounded ?acts initial_component)))))"
    by blast
  with v h show ?thesis by simp
qed

section \<open>Neutral defaults\<close>

text \<open>
  Claim C5, as the scanner has it: in every vector handed over after any sequence of
  actions on a freshly mounted scanner, a feature whose source has sent no event since
  the mount is at its neutral default: \<open>handSignFreq\<close> 0 without hands results,
  \<open>speechDetected\<close> false without speech events, \<open>gazePattern\<close> normal and \<open>posture\<close>
  standing without pose results, \<open>interactionBehavior\<close> absent always. With no
  perception event since the mount the vector is the all-neutral one. A pending
  timeout that fires always hands a vector over.
\<close>

theorem no_events_neutral_defaults:
  "(\<forall>v\<in>set (handedOver math acts initial_component).
      ((\<forall>a\<in>set acts. \<not> isHandsEvent a) \<longrightarrow> outHandSignFreq (resultFeatures v) = 0) \<and>
      ((\<forall>a\<in>set acts. \<not> isSpeechEvent a) \<longrightarrow> outSpeechDetected (resultFeatures v) = False) \<and>
      ((\<forall>a\<in>set acts. \<not> isPoseEvent a) \<longrightarrow>
         outGazePattern (resultFeatures v) = Normal \<and> outPosture (resultFeatures v) = Standing) \<and>
      outInteractionBehavior (resultFeatures v) = None \<and>
      ((\<forall>a\<in>set acts. \<not> isHandsEvent a \<and> \<not> isSpeechEvent a \<and> \<not> isPoseEvent a) \<longrightarrow>
         resultFeatures v = neutralFeatures (outTimestamp (resultFeatures v)))) \<and>
   (pendingCompletes (run math acts initial_component) \<noteq> [] \<longrightarrow>
      snd (perform math (TimeoutFires now) (run math acts initial_component)) \<noteq> None)"
proof -
  have hands: "\<forall>v\<in>set (handedOver math acts initial_component). outHandSignFreq (resultFeatures v) = 0"
    if "\<forall>a\<in>set acts. \<not> isHandsEvent a"
  proof -
    have "\<forall>v\<in>set (handedOver math acts initial_component).
        \<exists>now r. handSignFreq (features r) = 0 \<and>
          v = \<lparr>resultFeatures = buildScanFeatures now r, duration = scanDuration\<rparr>"
      using run_renders [where P = "\<lambda>r. handSignFreq (features r) = 0"
          and Q = "\<lambda>a. \<not> isHandsEvent a" and acts = acts and c = initial_component and math = math]
        that
      by (simp add: renders_initial initial_scanner_def initial_features_def observe_keeps_freq)
    then show ?thesis by (fastforce simp: buildScanFeatures_def)
  qed
  have speech: "\<forall>v\<in>set (handedOver math acts initial_component). \<not> outSpeechDetected (resultFeatures v)"
    if "\<forall>a\<in>set acts. \<not> isSpeechEvent a"
  proof -
    have "\<forall>v\<in>set (handedOver math acts initial_component).
        \<exists>now r. (\<not> speechDetected (features r) \<and> \<not> statsSpeechDetected (liveStats r)) \<and>
          v = \<lparr>resultFeatures = buildScanFeatures now r, duration = scanDuration\<rparr>"
      using run_renders [where P = "\<lambda>r. \<not> speechDetected (features r) \<and> \<not> statsSpeechDetected (liveStats r)"
          and Q = "\<lambda>a. \<not> isSpeechEvent a" and acts = acts and c = initial_component and math = math]
        that
      by (simp add: renders_initial initial_scanner_def initial_features_def initial_liveStats_def
          observe_keeps_speech)
    then show ?thesis by (fastforce simp: buildScanFeatures_def)
  qed
  have pose: "\<forall>v\<in>set (handedOver math acts initial_component).
      outGazePattern (resultFeatures v) = Normal \<and> outPosture (resultFeatures v) = Standing"
    if "\<forall>a\<in>set acts. \<not> isPoseEvent a"
  proof -
    have "\<forall>v\<in>set (handedOver math acts initial_component).
        \<exists>now r. (gazePattern (features r) = None \<and> posture (features r) = None) \<and>
          v = \<lparr>resultFeatures = buildScanFeatures now r, duration = scanDuration\<rparr>"
      using run_renders [where P = "\<lambda>r. gazePattern (features r) = None \<and> posture (features r) = None"
          and Q = "\<lambda>a. \<not> isPoseEvent a" and acts = acts and c = initial_component and math = math]
        that
      by (simp add: renders_initial initial_scanner_def initial_features_def observe_keeps_pose)
    then show ?thesis by (fastforce simp: buildScanFeatures_def)
  qed
  have inter: "\<forall>v\<in>set (handedOver math acts initial_component).
      outInteractionBehavior (resultFeatures v) = None"
  proof -
    have "\<forall>v\<in>set (handedOver math acts initial_component).
        \<exists>now r. interactionBehavior (features r) = None \<and>
          v = \<lparr>resultFeatures = buildScanFeatures now r, duration = scanDuration\<rparr>"
      using run_renders [where P = "\<lambda>r. interactionBehavior (features r) = None"
          and Q = "\<lambda>a. True" and acts = acts and c = initial_component and math = math]
      by (simp add: renders_initial initial_scanner_def initial_features_def observe_interaction)
    then show ?thesis by (fastforce simp: buildScanFeatures_def orNull_def)
  qed
  have fires: "pendingCompletes (run math acts initial_component) \<noteq> [] \<longrightarrow>
      snd (perform math (TimeoutFires now) (run math acts initial_component)) \<noteq> None"
    by (simp add: completeScan_def split: list.splits)
  have all: "resultFeatures v = neutralFeatures (outTimestamp (resultFeatures v))"
    if "v \<in> set (handedOver math acts initial_component)"
      and "\<forall>a\<in>set acts. \<not> isHandsEvent a \<and> \<not> isSpeechEvent a \<and> \<not> isPoseEvent a" for v
  proof -
    from that have "outHandSignFreq (resultFeatures v) = 0" "\<not> outSpeechDetected (resultFeatures v)"
      "outGazePattern (resultFeatures v) = Normal" "outPosture (resultFeatures v) = Standing"
      "outInteractionBehavior (resultFeatures v) = None"
      using hands speech pose inter by blast+
    then show ?thesis
      by (simp add: neutralFeatures_def)
  qed
  from hands speech pose inter fires all show ?thesis
    by blast
qed

theorem no_events_neutral_defaults_witness:
  "handedOver correctlyRounded
     [Start True, Stop, Start True, TimeoutFires ''a'', TimeoutFires ''b''] initial_component =
     [\<lparr>resultFeatures = neutralFeatures ''a'', duration = 20000\<rparr>,
      \<lparr>resultFeatures = neutralFeatures ''b'', duration = 20000\<rparr>]"
proof -
  let ?acts = "[Start True, Stop, Start True, TimeoutFires ''a'', TimeoutFires ''b'']"
  obtain v w where vw: "handedOver correctlyRounded ?acts initial_component = [v, w]"
    and stamps: "outTimestamp (resultFeatures v) = ''a''" "outTimestamp (resultFeatures w) = ''b''"
    and durations: "duration v = 20000" "duration w = 20000"
    by (simp add: scan_defs)
  have "\<forall>a\<in>set ?acts. \<not> isHandsEvent a \<and> \<not> isSpeechEvent a \<and> \<not> isPoseEvent a"
    by simp
  with no_events_neutral_defaults [of correctlyRounded ?acts]
  have "\<forall>v\<in>set (handedOver correctlyRounded ?acts initial_component).
      resultFeatures v = neutralFeatures (outTimestamp (resultFeatures v))"
    by blast
  with vw stamps have "resultFeatures v = neutralFeatures ''a''" "resultFeatures w = neutralFeatures ''b''"
    by simp_all
  with durations have "v = \<lparr>resultFeatures = neutralFeatures ''a'', duration = 20000\<rparr>"
    "w = \<lparr>resultFeatures = neutralFeatures ''b'', duration = 20000\<rparr>"
    by simp_all
  with vw show ?thesis by simp
qed

text \<open>
  A scan with speech is stopped and a second scan is started, in which no event
  arrives: the vector of the second scan has \<open>speechDetected\<close> true.
\<close>

theorem second_scan_not_neutral:
  "handedOver correctlyRounded
     [Start True, Perceive (SpeechResult 0 [\<lparr>isFinal = True, transcript = ''hello''\<rparr>]), Stop,
      Start True, TimeoutFires ''a'', TimeoutFires ''b''] initial_component =
     [\<lparr>resultFeatures = neutralFeatures ''a'', duration = 20000\<rparr>,
      \<lparr>resultFeatures = (neutralFeatures ''b'')\<lparr>outSpeechDetected := True\<rparr>, duration = 20000\<rparr>]"
  by (simp add: scan_defs)

section \<open>Posture and gaze\<close>

text \<open>
  Claim C6, as the scanner has it: for a pose frame that has both hips (landmarks 23,
  24) and both ankles (27, 28), \<open>analyzePose\<close> computes each average in double
  arithmetic (the double sum, then the double quotient by 2) and sets the posture to
  seated when the absolute value of the double difference of the two averages is below
  the double \<open>0.2\<close>, and to standing otherwise; so does \<open>pose.onResults\<close> while
  scanning.
\<close>

theorem posture_from_hips_and_ankles:
  assumes "landmark_at landmarks 23 = Some leftHip" and "landmark_at landmarks 24 = Some rightHip"
    and "landmark_at landmarks 27 = Some leftAnkle" and "landmark_at landmarks 28 = Some rightAnkle"
  shows "posture (analyzePose landmarks prev) =
           Some (if \<bar>jsSub (jsDiv (jsAdd (ly leftHip) (ly rightHip)) 2)
                           (jsDiv (jsAdd (ly leftAnkle) (ly rightAnkle)) 2)\<bar> < fl 0.2
                 then Seated else Standing) \<and>
         (isScanning s \<longrightarrow>
            posture (features (poseOnResults (Some landmarks) s)) =
              Some (if \<bar>jsSub (jsDiv (jsAdd (ly leftHip) (ly rightHip)) 2)
                              (jsDiv (jsAdd (ly leftAnkle) (ly rightAnkle)) 2)\<bar> < fl 0.2
                    then Seated else Standing))"
  using assms
  by (simp add: poseOnResults_posture analyzePose_def classifyPosture_def)

theorem posture_from_hips_and_ankles_witness:
  "posture (features (poseOnResults
      (Some (replicate 23 \<lparr>lx = 0.5, ly = 0.25, lz = 0\<rparr> @
       [\<lparr>lx = 0.375, ly = 3134505340649865 / 2 ^ 53, lz = 0\<rparr>,
        \<lparr>lx = 0.625, ly = 7457960982925541 / 2 ^ 54, lz = 0\<rparr>,
        \<lparr>lx = 0.375, ly = 0.5, lz = 0\<rparr>, \<lparr>lx = 0.625, ly = 0.5, lz = 0\<rparr>,
        \<lparr>lx = 0.375, ly = 4926937992343323 / 2 ^ 53, lz = 0\<rparr>,
        \<lparr>lx = 0.625, ly = 2769713770832855 / 2 ^ 52, lz = 0\<rparr>]))
      (current (startScan True initial_component)))) = Some Seated"
proof -
  have scanning: "isScanning (current (startScan True initial_component))"
    by (simp add: startScan_def startGuidedSteps_def)
  from posture_from_hips_and_ankles [OF hips_and_ankles_at, THEN conjunct2, rule_format, OF scanning]
  show ?thesis
    by (simp only: landmark.select_convs posture_sample_seated if_True)
qed

text \<open>
  At these heights the exact difference of the exact averages is not below 0.2, and
  the posture is seated.
\<close>

theorem posture_differs_from_exact_comparison:
  "\<not> \<bar>(3134505340649865 / 2 ^ 53 + 7457960982925541 / 2 ^ 54) / 2
        - (4926937992343323 / 2 ^ 53 + 2769713770832855 / 2 ^ 52) / 2\<bar> < (0.2 :: real) \<and>
   posture (analyzePose
      (replicate 23 \<lparr>lx = 0.5, ly = 0.25, lz = 0\<rparr> @
       [\<lparr>lx = 0.375, ly = 3134505340649865 / 2 ^ 53, lz = 0\<rparr>,
        \<lparr>lx = 0.625, ly = 7457960982925541 / 2 ^ 54, lz = 0\<rparr>,
        \<lparr>lx = 0.375, ly = 0.5, lz = 0\<rparr>, \<lparr>lx = 0.625, ly = 0.5, lz = 0\<rparr>,
        \<lparr>lx = 0.375, ly = 4926937992343323 / 2 ^ 53, lz = 0\<rparr>,
        \<lparr>lx = 0.625, ly = 2769713770832855 / 2 ^ 52, lz = 0\<rparr>]) initial_features)
     = Some Seated"
proof -
  have exact: "\<not> \<bar>(3134505340649865 / 2 ^ 53 + 7457960982925541 / 2 ^ 54) / 2
        - (4926937992343323 / 2 ^ 53 + 2769713770832855 / 2 ^ 52) / 2\<bar> < (0.2 :: real)"
    by simp
  have "posture (analyzePose
      (replicate 23 \<lparr>lx = 0.5, ly = 0.25, lz = 0\<rparr> @
       [\<lparr>lx = 0.375, ly = 3134505340649865 / 2 ^ 53, lz = 0\<rparr>,
        \<lparr>lx = 0.625, ly = 7457960982925541 / 2 ^ 54, lz = 0\<rparr>,
        \<lparr>lx = 0.375, ly = 0.5, lz = 0\<rparr>, \<lparr>lx = 0.625, ly = 0.5, lz = 0\<rparr>,
        \<lparr>lx = 0.375, ly = 4926937992343323 / 2 ^ 53, lz = 0\<rparr>,
        \<lparr>lx = 0.625, ly = 2769713770832855 / 2 ^ 52, lz = 0\<rparr>]) initial_features)
     = Some (classifyPosture \<lparr>lx = 0.375, ly = 3134505340649865 / 2 ^ 53, lz = 0\<rparr>
        \<lparr>lx = 0.625, ly = 7457960982925541 / 2 ^ 54, lz = 0\<rparr>
        \<lparr>lx = 0.375, ly = 4926937992343323 / 2 ^ 53, lz = 0\<rparr>
        \<lparr>lx = 0.625, ly = 2769713770832855 / 2 ^ 52, lz = 0\<rparr>)"
    unfolding analyzePose_def hips_and_ankles_at by simp
  also have "\<dots> = Some Seated"
    unfolding classifyPosture_def Let_def
    by (simp only: landmark.select_convs posture_sample_seated if_True)
  finally show ?thesis
    using exact by (rule conjI [rotated])
qed



section \<open>Speech\<close>

text \<open>
  Claim C8, at a scan in which a finalized speech result was observed: the features
  hold \<open>speechDetected\<close> true, and the vector handed over when the timeout of the
  Start click fires has \<open>speechDetected\<close> false, being built from the Start-click
  render.
\<close>

theorem observed_speech_not_handed_over:
  "speechDetected (features (current (run math
     [Start True, Perceive (SpeechResult 0 [\<lparr>isFinal = True, transcript = ''hello''\<rparr>])]
     initial_component))) \<and>
   handedOver math
     [Start True, Perceive (SpeechResult 0 [\<lparr>isFinal = True, transcript = ''hello''\<rparr>]),
      TimeoutFires ''t''] initial_component =
     [\<lparr>resultFeatures = neutralFeatures ''t'', duration = 20000\<rparr>]"
  by (simp add: scan_defs)

section \<open>Tie-break\<close>

text \<open>
  Claim C9: the recommended mode has the maximal score, and every mode that shares that
  score stands no earlier in the priority order voice, sign, text, gesture, motor.
\<close>

theorem tie_break_by_priority:
  "sc m \<le> sc (recommendedMode sc) \<and>
   (sc m = sc (recommendedMode sc) \<longrightarrow> priorityRank (recommendedMode sc) \<le> priorityRank m)"
  by (cases m) (auto simp: recommendedMode_def priorityOrder_def priorityRank_def split: if_splits)

theorem tie_break_by_priority_witness:
  "recommendedMode (\<lambda>m. case m of Voice \<Rightarrow> 0.4 | Sign \<Rightarrow> 0.8 | Text \<Rightarrow> 0.3 | Gesture \<Rightarrow> 0.8 | Motor \<Rightarrow> 0.2) = Sign \<and>
   priorityRank Sign \<le> priorityRank Gesture"
  using tie_break_by_priority [of "\<lambda>m. case m of Voice \<Rightarrow> 0.4 | Sign \<Rightarrow> 0.8 | Text \<Rightarrow> 0.3 | Gesture \<Rightarrow> 0.8 | Motor \<Rightarrow> 0.2" Gesture]
  by (simp add: recommendedMode_def priorityOrder_def)

section \<open>The last pose frame\<close>


end
